theory Spec2Isabelle
  imports Complex_Main
begin

section \<open>Data model: pandas frames as the processor uses them\<close>

text \<open>
  The processor (\<^verbatim>\<open>src/procesos.py\<close>, class \<^verbatim>\<open>SAPDataProcessor\<close>) works on pandas
  DataFrames. A frame is modelled row-wise: the ordered list of its column labels and the
  ordered list of its rows, a row giving one cell per label. Every access to a column goes
  through \<open>getcol\<close>, which raises \<^verbatim>\<open>KeyError\<close> for a label the frame does not have, as
  \<^verbatim>\<open>df['X']\<close> does.

  A cell is a missing value (\<^verbatim>\<open>None\<close>, \<^verbatim>\<open>NaN\<close>, \<^verbatim>\<open>NaT\<close>: whatever \<^verbatim>\<open>isna\<close> accepts),
  a number, a text or a timestamp. A number is an int64 or a float64 value: a finite one is
  given by its value, a real; the two infinities of float64 are values of their own, because
  \<^verbatim>\<open>fillna\<close> does not touch them. What numpy computes from such values (int64 wraps around,
  float64 rounds) is not part of the value: see the arithmetic below.
  A timestamp is its number of nanoseconds since the epoch.
\<close>

datatype xnum = Fin real | PInf | NInf

datatype cell = Null | Num xnum | Str string | Date int

type_synonym row = "string \<Rightarrow> cell"

record frame =
  cols :: "string list"
  rws :: "row list"

datatype error =
    KeyError string
  | TypeError
  | ValueError string "string set"
  | FileNotFoundError string
  | ReadError string
  | LoadException error
  | ReportException error

definition bindE :: "error + 'a \<Rightarrow> ('a \<Rightarrow> error + 'b) \<Rightarrow> error + 'b" where
  "bindE m f = (case m of Inl e \<Rightarrow> Inl e | Inr x \<Rightarrow> f x)"

subsection \<open>The pandas operations the source calls\<close>

text \<open>\<^verbatim>\<open>df[c]\<close>: the column as a series, or \<^verbatim>\<open>KeyError\<close>.\<close>

definition getcol :: "frame \<Rightarrow> string \<Rightarrow> error + cell list" where
  "getcol df c =
     (if c \<in> set (cols df) then Inr (map (\<lambda>r. r c) (rws df)) else Inl (KeyError c))"

text \<open>\<^verbatim>\<open>df[mask]\<close>: the rows at which the boolean series is true, in order.\<close>

definition select_mask :: "frame \<Rightarrow> bool list \<Rightarrow> frame" where
  "select_mask df bs = df\<lparr>rws := map fst (filter snd (zip (rws df) bs))\<rparr>"

text \<open>\<^verbatim>\<open>series.isin(values)\<close>, \<^verbatim>\<open>series == text\<close> and \<^verbatim>\<open>series.unique()\<close>.\<close>

definition isin :: "cell list \<Rightarrow> cell list \<Rightarrow> bool list" where
  "isin xs vals = map (\<lambda>c. c \<in> set vals) xs"

definition eq_text :: "cell list \<Rightarrow> string \<Rightarrow> bool list" where
  "eq_text xs s = map (\<lambda>c. c = Str s) xs"

definition unique_values :: "cell list \<Rightarrow> cell list" where
  "unique_values xs = rev (remdups (rev xs))"

text \<open>\<^verbatim>\<open>len(df)\<close> and \<^verbatim>\<open>df.empty\<close> (true when either axis has length 0).\<close>

definition len_df :: "frame \<Rightarrow> nat" where
  "len_df df = length (rws df)"

definition empty_df :: "frame \<Rightarrow> bool" where
  "empty_df df = (cols df = [] \<or> rws df = [])"

subsection \<open>Arithmetic on columns\<close>

text \<open>
  The numeric columns are int64 or float64 arrays, and numpy computes in the type of the
  operands: an int64 product or sum wraps around, a float64 one is rounded and may overflow
  to infinity, and a float64 sum is accumulated in numpy's own order. The source fixes
  none of this, so the arithmetic of a call is a parameter: one operation for each place
  where the source computes, each taking numbers (\<open>None\<close> standing for \<^verbatim>\<open>NaN\<close>) and
  returning a number or \<^verbatim>\<open>NaN\<close>. Nothing is assumed of these operations; a theorem that
  needs one of them to be exact says so.
\<close>

record aritmetica =
  mul_importes :: "xnum \<Rightarrow> xnum \<Rightarrow> xnum option"
  sum_importes :: "xnum option list \<Rightarrow> xnum option"
  sum_pagos :: "xnum option list \<Rightarrow> xnum option"
  sub_totales :: "xnum option \<Rightarrow> xnum option \<Rightarrow> xnum option"
  sum_stock :: "xnum option list \<Rightarrow> xnum option"

fun cell_num :: "cell \<Rightarrow> xnum option" where
  "cell_num (Num x) = Some x"
| "cell_num _ = None"

fun num_cell :: "xnum option \<Rightarrow> cell" where
  "num_cell (Some x) = Num x"
| "num_cell None = Null"

fun is_num_or_null :: "cell \<Rightarrow> bool" where
  "is_num_or_null Null = True"
| "is_num_or_null (Num _) = True"
| "is_num_or_null _ = False"

text \<open>
  Element-wise \<^verbatim>\<open>*\<close> of two cells. A missing operand gives \<^verbatim>\<open>NaN\<close>; two numbers give
  what the operation of the call gives. A text or a timestamp operand is a
  \<^verbatim>\<open>TypeError\<close>: where Python would still repeat a text an integer number of times, the
  text total that results fails at the subtraction or at the \<^verbatim>\<open>:,.2f\<close> format of the log
  line, inside the same \<^verbatim>\<open>try\<close>.
\<close>

fun cmul :: "(xnum \<Rightarrow> xnum \<Rightarrow> xnum option) \<Rightarrow> cell \<Rightarrow> cell \<Rightarrow> error + cell" where
  "cmul f Null _ = Inr Null"
| "cmul f _ Null = Inr Null"
| "cmul f (Num a) (Num b) = Inr (num_cell (f a b))"
| "cmul f _ _ = Inl TypeError"

text \<open>An element-wise operation on a series raises as soon as one element does.\<close>

fun mapE :: "('a \<Rightarrow> error + 'b) \<Rightarrow> 'a list \<Rightarrow> error + 'b list" where
  "mapE f [] = Inr []"
| "mapE f (x # xs) = bindE (f x) (\<lambda>y. bindE (mapE f xs) (\<lambda>ys. Inr (y # ys)))"

definition mul_series ::
  "(xnum \<Rightarrow> xnum \<Rightarrow> xnum option) \<Rightarrow> cell list \<Rightarrow> cell list \<Rightarrow> error + cell list" where
  "mul_series f xs ys = mapE (\<lambda>(a, b). cmul f a b) (zip xs ys)"

text \<open>
  \<^verbatim>\<open>series.sum()\<close> with the default \<^verbatim>\<open>skipna=True\<close>. With no value left after the
  missing ones are skipped the sum is 0, in every number type; otherwise it is what the
  operation of the call gives for the series. A text or a timestamp among the values is a
  \<^verbatim>\<open>TypeError\<close>: pandas refuses to add timestamps, and a text total fails in every
  caller as described for \<open>cmul\<close>.
\<close>

definition sum_series :: "(xnum option list \<Rightarrow> xnum option) \<Rightarrow> cell list \<Rightarrow> error + cell" where
  "sum_series f xs =
     (if list_all is_num_or_null xs
      then Inr (if list_all (\<lambda>c. c = Null) xs then Num (Fin 0) else num_cell (f (map cell_num xs)))
      else Inl TypeError)"

text \<open>
  Scalar \<^verbatim>\<open>a - b\<close> on two totals. The difference of two zeros is zero in every number
  type; any other difference of numbers is what the operation of the call gives.
\<close>

definition csub ::
  "(xnum option \<Rightarrow> xnum option \<Rightarrow> xnum option) \<Rightarrow> cell \<Rightarrow> cell \<Rightarrow> error + cell" where
  "csub f a b =
     (if is_num_or_null a \<and> is_num_or_null b
      then Inr (if a = Num (Fin 0) \<and> b = Num (Fin 0) then Num (Fin 0)
                else num_cell (f (cell_num a) (cell_num b)))
      else Inl TypeError)"

section \<open>KPI calculation\<close>

text \<open>
  \<^verbatim>\<open>calcular_kpis\<close> (procesos.py, lines 130-150). The body of the \<^verbatim>\<open>try\<close> is
  \<open>calcular_kpis_try\<close>; the \<^verbatim>\<open>except Exception\<close> branch returns \<^verbatim>\<open>0.0, 0.0, 0.0\<close>.
\<close>

definition calcular_kpis_try ::
  "aritmetica \<Rightarrow> frame \<Rightarrow> frame \<Rightarrow> error + (cell \<times> cell \<times> cell)" where
  "calcular_kpis_try ar ventas_df pagos_df =
     bindE (getcol ventas_df ''Cantidad'') (\<lambda>cantidad.
     bindE (getcol ventas_df ''Valor_Neto'') (\<lambda>valor_neto.
     bindE (mul_series (mul_importes ar) cantidad valor_neto) (\<lambda>importes.
     bindE (sum_series (sum_importes ar) importes) (\<lambda>total_ventas.
     bindE (getcol ventas_df ''Doc_Venta'') (\<lambda>doc_venta.
     bindE (getcol pagos_df ''Referencia_Factura'') (\<lambda>referencia.
     bindE (getcol (select_mask pagos_df (isin referencia (unique_values doc_venta))) ''Monto_Pago'')
       (\<lambda>monto_pago.
     bindE (sum_series (sum_pagos ar) monto_pago) (\<lambda>total_pagado.
     bindE (csub (sub_totales ar) total_ventas total_pagado) (\<lambda>pendiente_cobrar.
     Inr (total_ventas, total_pagado, pendiente_cobrar))))))))))"

definition calcular_kpis :: "aritmetica \<Rightarrow> frame \<Rightarrow> frame \<Rightarrow> cell \<times> cell \<times> cell" where
  "calcular_kpis ar ventas_df pagos_df =
     (case calcular_kpis_try ar ventas_df pagos_df of
        Inr kpis \<Rightarrow> kpis
      | Inl e \<Rightarrow> (Num (Fin 0), Num (Fin 0), Num (Fin 0)))"

text \<open>The claims speak of finite amounts: \<open>is_fin\<close> recognises them, \<open>fin_val\<close> reads them.\<close>

fun is_fin :: "cell \<Rightarrow> bool" where
  "is_fin (Num (Fin _)) = True"
| "is_fin _ = False"

fun fin_val :: "cell \<Rightarrow> real" where
  "fin_val (Num (Fin x)) = x"
| "fin_val _ = 0"

text \<open>
  The totals as the specification words them. A payment row is matched when its invoice
  reference is the document id of some sales row; \<open>suma_ventas\<close> is the sum over the sales
  rows of quantity times net value, \<open>suma_pagada\<close> the sum of the amounts of the matched
  payments. \<open>importe\<close> is the exact product of one row.
\<close>

definition matched :: "frame \<Rightarrow> row \<Rightarrow> bool" where
  "matched ventas_df p = (p ''Referencia_Factura'' \<in> (\<lambda>r. r ''Doc_Venta'') ` set (rws ventas_df))"

definition importe :: "row \<Rightarrow> real" where
  "importe r = fin_val (r ''Cantidad'') * fin_val (r ''Valor_Neto'')"

definition suma_ventas :: "frame \<Rightarrow> real" where
  "suma_ventas ventas_df = sum_list (map importe (rws ventas_df))"

definition pagos_aplicados :: "frame \<Rightarrow> frame \<Rightarrow> row list" where
  "pagos_aplicados ventas_df pagos_df = filter (matched ventas_df) (rws pagos_df)"

definition suma_pagada :: "frame \<Rightarrow> frame \<Rightarrow> real" where
  "suma_pagada ventas_df pagos_df =
     sum_list (map (\<lambda>p. fin_val (p ''Monto_Pago'')) (pagos_aplicados ventas_df pagos_df))"

text \<open>
  \<open>exacta\<close>: on these two tables the arithmetic of the call is exact wherever the
  calculation uses it, that is, no int64 operation wraps around and no float64 operation
  rounds or overflows: each product, the sum of the products, the sum of the matched
  amounts and the difference of the two sums are the exact ones.
\<close>

definition exacta :: "aritmetica \<Rightarrow> frame \<Rightarrow> frame \<Rightarrow> bool" where
  "exacta ar ventas_df pagos_df =
     ((\<forall>r\<in>set (rws ventas_df).
         mul_importes ar (Fin (fin_val (r ''Cantidad''))) (Fin (fin_val (r ''Valor_Neto'')))
           = Some (Fin (importe r)))
      \<and> (rws ventas_df \<noteq> [] \<longrightarrow>
           sum_importes ar (map (\<lambda>r. Some (Fin (importe r))) (rws ventas_df))
             = Some (Fin (suma_ventas ventas_df)))
      \<and> (pagos_aplicados ventas_df pagos_df \<noteq> [] \<longrightarrow>
           sum_pagos ar (map (\<lambda>p. Some (Fin (fin_val (p ''Monto_Pago''))))
                          (pagos_aplicados ventas_df pagos_df))
             = Some (Fin (suma_pagada ventas_df pagos_df)))
      \<and> sub_totales ar (Some (Fin (suma_ventas ventas_df)))
                        (Some (Fin (suma_pagada ventas_df pagos_df)))
           = Some (Fin (suma_ventas ventas_df - suma_pagada ventas_df pagos_df)))"

text \<open>
  The arithmetic of int64 columns, which numpy fixes completely: the exact integer result
  reduced to the range from \<open>- 2 ^ 63\<close> to \<open>2 ^ 63 - 1\<close>. The theorems are evaluated with it
  on tables of integers.
\<close>

definition wrap64 :: "int \<Rightarrow> int" where
  "wrap64 k = (k + 2 ^ 63) mod 2 ^ 64 - 2 ^ 63"

fun entero :: "xnum option \<Rightarrow> int" where
  "entero (Some (Fin a)) = \<lfloor>a\<rfloor>"
| "entero _ = 0"

definition int64 :: "int \<Rightarrow> xnum option" where
  "int64 k = Some (Fin (of_int (wrap64 k)))"

definition sum_int64 :: "xnum option list \<Rightarrow> xnum option" where
  "sum_int64 xs = int64 (sum_list (map entero xs))"

definition aritmetica_int64 :: aritmetica where
  "aritmetica_int64 =
     \<lparr>mul_importes = (\<lambda>a b. int64 (entero (Some a) * entero (Some b))),
      sum_importes = sum_int64,
      sum_pagos = sum_int64,
      sub_totales = (\<lambda>a b. int64 (entero a - entero b)),
      sum_stock = sum_int64\<rparr>"

text \<open>
  For the statement about repeated documents: a sales table with the three columns the
  calculation reads and no row at which the product raises (a missing operand, or two
  numbers). \<open>pagado_try\<close> is the paid total as the payments side alone determines it.
\<close>

fun multiplicable :: "cell \<Rightarrow> cell \<Rightarrow> bool" where
  "multiplicable Null _ = True"
| "multiplicable _ Null = True"
| "multiplicable (Num a) (Num b) = True"
| "multiplicable _ _ = False"

definition ventas_ok :: "frame \<Rightarrow> bool" where
  "ventas_ok v = ({''Cantidad'', ''Valor_Neto'', ''Doc_Venta''} \<subseteq> set (cols v) \<and>
     (\<forall>r\<in>set (rws v). multiplicable (r ''Cantidad'') (r ''Valor_Neto'')))"

definition pagado_try :: "aritmetica \<Rightarrow> frame \<Rightarrow> frame \<Rightarrow> error + cell" where
  "pagado_try ar v p =
     bindE (getcol p ''Referencia_Factura'') (\<lambda>_.
     bindE (getcol (p\<lparr>rws := filter (matched v) (rws p)\<rparr>) ''Monto_Pago'')
       (sum_series (sum_pagos ar)))"

section \<open>Filters\<close>

text \<open>
  \<^verbatim>\<open>aplicar_filtros\<close> (procesos.py, lines 102-128). \<^verbatim>\<open>if productos:\<close> is Python
  truthiness: \<^verbatim>\<open>None\<close> and the empty list are false, and so are \<^verbatim>\<open>None\<close> and the
  empty text for \<^verbatim>\<open>moneda\<close>. \<open>filtrar_isin df c vals\<close> is \<^verbatim>\<open>df[df[c].isin(vals)]\<close> and
  \<open>filtrar_eq df c s\<close> is \<^verbatim>\<open>df[df[c] == s]\<close>.
\<close>

definition filtrar_isin :: "frame \<Rightarrow> string \<Rightarrow> string list \<Rightarrow> error + frame" where
  "filtrar_isin df c vals =
     bindE (getcol df c) (\<lambda>serie. Inr (select_mask df (isin serie (map Str vals))))"

definition filtrar_eq :: "frame \<Rightarrow> string \<Rightarrow> string \<Rightarrow> error + frame" where
  "filtrar_eq df c s = bindE (getcol df c) (\<lambda>serie. Inr (select_mask df (eq_text serie s)))"

definition aplicar_filtros_try ::
  "frame \<Rightarrow> string list option \<Rightarrow> string list option \<Rightarrow> string option \<Rightarrow> error + frame" where
  "aplicar_filtros_try df productos clientes moneda =
     bindE (case productos of
              Some ps \<Rightarrow> if ps \<noteq> [] then filtrar_isin df ''Producto'' ps else Inr df
            | None \<Rightarrow> Inr df) (\<lambda>df1.
     bindE (case clientes of
              Some cs \<Rightarrow> if cs \<noteq> [] then filtrar_isin df1 ''Nombre_Cliente'' cs else Inr df1
            | None \<Rightarrow> Inr df1) (\<lambda>df2.
     bindE (case moneda of
              Some m \<Rightarrow> if m \<noteq> [] \<and> m \<noteq> ''Todas'' then filtrar_eq df2 ''Moneda'' m else Inr df2
            | None \<Rightarrow> Inr df2) (\<lambda>df3.
     Inr df3)))"

definition aplicar_filtros ::
  "frame \<Rightarrow> string list option \<Rightarrow> string list option \<Rightarrow> string option \<Rightarrow> frame" where
  "aplicar_filtros df productos clientes moneda =
     (case aplicar_filtros_try df productos clientes moneda of
        Inr df_filtrado \<Rightarrow> df_filtrado
      | Inl e \<Rightarrow> df)"




definition filtrar_cmp :: "frame \<Rightarrow> string \<Rightarrow> (cell \<Rightarrow> error + bool) \<Rightarrow> error + frame" where
  "filtrar_cmp df c cmp =
     bindE (getcol df c) (\<lambda>serie. bindE (mapE cmp serie) (\<lambda>bs. Inr (select_mask df bs)))"



text \<open>
  What the filters mean, for the statements below: a list filter is active when it is a
  non-empty list, the currency filter when it is a non-empty text other than
  \<^verbatim>\<open>"Todas"\<close>; a row passes an inactive filter, and passes an active one when its cell
  is among the values (is the value). \<open>columnas_ok\<close>: every active filter finds its column.
\<close>

fun activo :: "'a list option \<Rightarrow> bool" where
  "activo None = False"
| "activo (Some xs) = (xs \<noteq> [])"

fun pasa_lista :: "string list option \<Rightarrow> cell \<Rightarrow> bool" where
  "pasa_lista None c = True"
| "pasa_lista (Some vs) c = (vs = [] \<or> c \<in> Str ` set vs)"

fun moneda_activa :: "string option \<Rightarrow> bool" where
  "moneda_activa None = False"
| "moneda_activa (Some m) = (m \<noteq> [] \<and> m \<noteq> ''Todas'')"

fun pasa_moneda :: "string option \<Rightarrow> cell \<Rightarrow> bool" where
  "pasa_moneda None c = True"
| "pasa_moneda (Some m) c = (m = [] \<or> m = ''Todas'' \<or> c = Str m)"

definition columnas_ok :: "string list \<Rightarrow> string list option \<Rightarrow> string list option \<Rightarrow> string option \<Rightarrow> bool" where
  "columnas_ok cs productos clientes moneda =
     ((activo productos \<longrightarrow> ''Producto'' \<in> set cs) \<and>
      (activo clientes \<longrightarrow> ''Nombre_Cliente'' \<in> set cs) \<and>
      (moneda_activa moneda \<longrightarrow> ''Moneda'' \<in> set cs))"

definition pasa_filtros :: "string list option \<Rightarrow> string list option \<Rightarrow> string option \<Rightarrow> row \<Rightarrow> bool" where
  "pasa_filtros productos clientes moneda r =
     (pasa_lista productos (r ''Producto'') \<and> pasa_lista clientes (r ''Nombre_Cliente'') \<and>
      pasa_moneda moneda (r ''Moneda''))"

text \<open>
  The date range as the specification words it: both bounds inclusive, each optional. The
  order is that of timestamps, a bound being the midnight that begins its day; a missing
  date is inside the range only when no bound is given.
\<close>

fun es_fecha_o_nulo :: "cell \<Rightarrow> bool" where
  "es_fecha_o_nulo (Date t) = True"
| "es_fecha_o_nulo Null = True"
| "es_fecha_o_nulo _ = False"




section \<open>Loading, validating and cleaning\<close>

text \<open>
  \<^verbatim>\<open>_validar_estructura_datos\<close> (procesos.py, lines 61-78): the first data set, in the
  order ventas, pagos, stock, that lacks a required column raises \<^verbatim>\<open>ValueError\<close> with
  the set of its missing columns. Two labels carry an accent; they are written as their
  UTF-8 bytes.
\<close>

definition col_Descripcion :: string where
  "col_Descripcion = ''Descripci'' @ [CHR 0xC3, CHR 0xB3] @ ''n''"

definition col_Tipo_Almacen :: string where
  "col_Tipo_Almacen = ''Tipo_Almac'' @ [CHR 0xC3, CHR 0xA9] @ ''n''"

definition columnas_ventas :: "string list" where
  "columnas_ventas = [''Doc_Venta'', ''Fecha_Doc'', ''Cliente'', ''Nombre_Cliente'', ''Canal'',
     ''Producto'', ''Cantidad'', ''Valor_Neto'', ''Moneda'']"

definition columnas_pagos :: "string list" where
  "columnas_pagos = [''Doc_Pago'', ''Fecha_Pago'', ''Cliente'', ''Nombre_Cliente'', ''Banco'',
     ''Monto_Pago'', ''Moneda'', ''Referencia_Factura'']"

definition columnas_stock :: "string list" where
  "columnas_stock = [''Material'', col_Descripcion, ''Centro'', col_Tipo_Almacen,
     ''Stock_Total'', ''Unidad_Medida'']"

definition validar_uno :: "string \<Rightarrow> string list \<Rightarrow> frame \<Rightarrow> error + unit" where
  "validar_uno nombre requeridas df =
     (let columnas_faltantes = set requeridas - set (cols df)
      in if columnas_faltantes \<noteq> {} then Inl (ValueError nombre columnas_faltantes)
         else Inr ())"

definition validar_estructura_datos :: "frame \<times> frame \<times> frame \<Rightarrow> error + unit" where
  "validar_estructura_datos st =
     (case st of (ventas_df, pagos_df, stock_df) \<Rightarrow>
        bindE (validar_uno ''ventas'' columnas_ventas ventas_df) (\<lambda>_.
        bindE (validar_uno ''pagos'' columnas_pagos pagos_df) (\<lambda>_.
        validar_uno ''stock'' columnas_stock stock_df)))"

text \<open>
  The pandas calls of the cleaner. \<^verbatim>\<open>dropna(subset=[c])\<close> removes the rows whose cell
  in \<open>c\<close> is missing (\<^verbatim>\<open>KeyError\<close> without the column). \<^verbatim>\<open>df[c] = series\<close> replaces the
  column, or appends it. \<^verbatim>\<open>pd.to_numeric(..., errors='coerce')\<close> leaves a number as it
  is, infinite ones too, and turns whatever it cannot read as a number into \<^verbatim>\<open>NaN\<close>;
  how a text or a timestamp is read is pandas' business and is the parameter
  \<open>parse_num\<close>. \<^verbatim>\<open>fillna(0)\<close> replaces the missing values, and only them, by 0.
  \<^verbatim>\<open>pd.to_datetime(..., errors='coerce')\<close> keeps a timestamp and turns what it cannot
  read into \<^verbatim>\<open>NaT\<close>; \<open>parse_date\<close> is its reading of numbers and texts.
\<close>

definition dropna :: "frame \<Rightarrow> string \<Rightarrow> error + frame" where
  "dropna df c =
     (if c \<in> set (cols df) then Inr (df\<lparr>rws := filter (\<lambda>r. r c \<noteq> Null) (rws df)\<rparr>)
      else Inl (KeyError c))"

definition setcol :: "frame \<Rightarrow> string \<Rightarrow> cell list \<Rightarrow> frame" where
  "setcol df c serie =
     df\<lparr>cols := (if c \<in> set (cols df) then cols df else cols df @ [c]),
        rws := map (\<lambda>(r, v). r(c := v)) (zip (rws df) serie)\<rparr>"

fun to_numeric_coerce :: "(cell \<Rightarrow> xnum option) \<Rightarrow> cell \<Rightarrow> cell" where
  "to_numeric_coerce parse_num (Num x) = Num x"
| "to_numeric_coerce parse_num Null = Null"
| "to_numeric_coerce parse_num c = (case parse_num c of Some x \<Rightarrow> Num x | None \<Rightarrow> Null)"

fun fillna0 :: "cell \<Rightarrow> cell" where
  "fillna0 Null = Num (Fin 0)"
| "fillna0 c = c"

fun to_datetime_coerce :: "(cell \<Rightarrow> int option) \<Rightarrow> cell \<Rightarrow> cell" where
  "to_datetime_coerce parse_date (Date t) = Date t"
| "to_datetime_coerce parse_date Null = Null"
| "to_datetime_coerce parse_date c = (case parse_date c of Some t \<Rightarrow> Date t | None \<Rightarrow> Null)"

definition limpiar_numerica :: "(cell \<Rightarrow> xnum option) \<Rightarrow> frame \<Rightarrow> string \<Rightarrow> error + frame" where
  "limpiar_numerica parse_num df c =
     bindE (getcol df c) (\<lambda>serie.
       Inr (setcol df c (map (fillna0 \<circ> to_numeric_coerce parse_num) serie)))"

definition convertir_fecha :: "(cell \<Rightarrow> int option) \<Rightarrow> frame \<Rightarrow> string \<Rightarrow> error + frame" where
  "convertir_fecha parse_date df c =
     (if c \<in> set (cols df)
      then bindE (getcol df c) (\<lambda>serie.
             Inr (setcol df c (map (to_datetime_coerce parse_date) serie)))
      else Inr df)"

text \<open>
  \<^verbatim>\<open>_limpiar_datos\<close> (procesos.py, lines 80-100). The three frames are the processor's
  attributes \<^verbatim>\<open>ventas_df\<close>, \<^verbatim>\<open>pagos_df\<close>, \<^verbatim>\<open>stock_df\<close>; the method updates them in place,
  the model returns the new triple.
\<close>

definition limpiar_datos ::
  "(cell \<Rightarrow> xnum option) \<Rightarrow> (cell \<Rightarrow> int option) \<Rightarrow> frame \<times> frame \<times> frame
     \<Rightarrow> error + (frame \<times> frame \<times> frame)" where
  "limpiar_datos parse_num parse_date st =
     (case st of (ventas_df, pagos_df, stock_df) \<Rightarrow>
        bindE (dropna ventas_df ''Doc_Venta'') (\<lambda>v1.
        bindE (limpiar_numerica parse_num v1 ''Cantidad'') (\<lambda>v2.
        bindE (limpiar_numerica parse_num v2 ''Valor_Neto'') (\<lambda>v3.
        bindE (convertir_fecha parse_date v3 ''Fecha_Doc'') (\<lambda>v4.
        bindE (dropna pagos_df ''Referencia_Factura'') (\<lambda>p1.
        bindE (limpiar_numerica parse_num p1 ''Monto_Pago'') (\<lambda>p2.
        bindE (convertir_fecha parse_date p2 ''Fecha_Pago'') (\<lambda>p3.
        bindE (limpiar_numerica parse_num stock_df ''Stock_Total'') (\<lambda>s1.
        Inr (v4, p3, s1))))))))))"

text \<open>
  \<^verbatim>\<open>cargar_datos\<close> (procesos.py, lines 23-59). The file system is the predicate
  \<open>existe\<close> on file names under \<^verbatim>\<open>data_path\<close>; \<^verbatim>\<open>pd.read_excel\<close> is the parameter
  \<open>read_excel\<close>, which may itself raise. The loop over \<^verbatim>\<open>archivos.items()\<close> raises
  \<^verbatim>\<open>FileNotFoundError\<close> at the first file that does not exist; the error carries the
  file name the message is built from. \<^verbatim>\<open>except FileNotFoundError\<close> re-raises the error
  as it is, \<^verbatim>\<open>except Exception\<close> raises a plain \<^verbatim>\<open>Exception\<close> built from the message
  of whatever was raised (\<open>LoadException\<close>).
\<close>

definition archivos :: "(string \<times> string) list" where
  "archivos = [(''ventas'', ''F_ventas_sap.xlsx''), (''pagos'', ''F_pagos_clientes.xlsx''),
     (''stock'', ''MM_stock_actual.xlsx'')]"

fun verificar_archivos :: "(string \<Rightarrow> bool) \<Rightarrow> (string \<times> string) list \<Rightarrow> error + unit" where
  "verificar_archivos existe [] = Inr ()"
| "verificar_archivos existe ((nombre, archivo) # resto) =
     (if \<not> existe archivo then Inl (FileNotFoundError archivo)
      else verificar_archivos existe resto)"

definition cargar_datos_try ::
  "(string \<Rightarrow> bool) \<Rightarrow> (string \<Rightarrow> error + frame) \<Rightarrow> (cell \<Rightarrow> xnum option) \<Rightarrow> (cell \<Rightarrow> int option)
     \<Rightarrow> error + (frame \<times> frame \<times> frame)" where
  "cargar_datos_try existe read_excel parse_num parse_date =
     bindE (verificar_archivos existe archivos) (\<lambda>_.
     bindE (read_excel ''F_ventas_sap.xlsx'') (\<lambda>ventas_df.
     bindE (read_excel ''F_pagos_clientes.xlsx'') (\<lambda>pagos_df.
     bindE (read_excel ''MM_stock_actual.xlsx'') (\<lambda>stock_df.
     bindE (validar_estructura_datos (ventas_df, pagos_df, stock_df)) (\<lambda>_.
     limpiar_datos parse_num parse_date (ventas_df, pagos_df, stock_df))))))"

definition cargar_datos ::
  "(string \<Rightarrow> bool) \<Rightarrow> (string \<Rightarrow> error + frame) \<Rightarrow> (cell \<Rightarrow> xnum option) \<Rightarrow> (cell \<Rightarrow> int option)
     \<Rightarrow> error + (frame \<times> frame \<times> frame)" where
  "cargar_datos existe read_excel parse_num parse_date =
     (case cargar_datos_try existe read_excel parse_num parse_date of
        Inr datos \<Rightarrow> Inr datos
      | Inl (FileNotFoundError archivo) \<Rightarrow> Inl (FileNotFoundError archivo)
      | Inl e \<Rightarrow> Inl (LoadException e))"

text \<open>The files an error names, and the required files that are absent.\<close>

fun archivos_nombrados :: "error \<Rightarrow> string set" where
  "archivos_nombrados (FileNotFoundError archivo) = {archivo}"
| "archivos_nombrados _ = {}"

definition archivos_faltantes :: "(string \<Rightarrow> bool) \<Rightarrow> string list" where
  "archivos_faltantes existe = filter (\<lambda>archivo. \<not> existe archivo) (map snd archivos)"

text \<open>
  For the statements about cleaning: the cells of a column, being a number, and the table
  without the rows whose key is missing.
\<close>

definition columna :: "frame \<Rightarrow> string \<Rightarrow> cell list" where
  "columna df c = map (\<lambda>r. r c) (rws df)"

fun es_numero :: "cell \<Rightarrow> bool" where
  "es_numero (Num x) = True"
| "es_numero _ = False"

definition con_clave :: "frame \<Rightarrow> string \<Rightarrow> frame" where
  "con_clave df c = df\<lparr>rws := filter (\<lambda>r. r c \<noteq> Null) (rws df)\<rparr>"

text \<open>
  What cleaning makes of a cell of a numeric column: a number is kept as it is, a missing
  value becomes 0, and any other value becomes the number pandas reads from it, or 0 when it
  reads none.
\<close>

fun valor_limpio :: "(cell \<Rightarrow> xnum option) \<Rightarrow> cell \<Rightarrow> cell" where
  "valor_limpio parse_num (Num x) = Num x"
| "valor_limpio parse_num Null = Num (Fin 0)"
| "valor_limpio parse_num c = (case parse_num c of Some x \<Rightarrow> Num x | None \<Rightarrow> Num (Fin 0))"

section \<open>Report\<close>

text \<open>
  \<^verbatim>\<open>generar_reporte_excel\<close> and \<^verbatim>\<open>_crear_hoja_resumen\<close> (procesos.py, lines 153-273).
  The workbook is the ordered list of its sheets, each a name and the frame written to it
  by \<^verbatim>\<open>to_excel\<close>, in the order of the \<^verbatim>\<open>to_excel\<close> calls; the xlsx byte encoding and the
  cell formats are outside the model. \<^verbatim>\<open>series > 0\<close> is false at a missing value and a
  \<^verbatim>\<open>TypeError\<close> at a text or a timestamp.
\<close>

type_synonym workbook = "(string \<times> frame) list"

fun gt_zero :: "cell \<Rightarrow> error + bool" where
  "gt_zero (Num (Fin a)) = Inr (0 < a)"
| "gt_zero (Num PInf) = Inr True"
| "gt_zero (Num NInf) = Inr False"
| "gt_zero Null = Inr False"
| "gt_zero _ = Inl TypeError"

definition col_Metrica :: string where
  "col_Metrica = ''M'' @ [CHR 0xC3, CHR 0xA9] @ ''trica''"

definition metricas :: "string list" where
  "metricas =
     [''Total Ventas'',
      ''Total Pagado'',
      ''Pendiente por Cobrar'',
      ''Productos '' @ [CHR 0xC3, CHR 0x9A] @ ''nicos'',
      ''Clientes '' @ [CHR 0xC3, CHR 0x9A] @ ''nicos'',
      ''Transacciones de Venta'',
      ''Transacciones de Pago'',
      ''Materiales en Stock'',
      ''Centros de Distribuci'' @ [CHR 0xC3, CHR 0xB3] @ ''n'',
      ''Stock Total (Unidades)'']"

definition num_of_nat :: "nat \<Rightarrow> cell" where
  "num_of_nat n = Num (Fin (real n))"

definition fila_resumen :: "string \<times> cell \<Rightarrow> row" where
  "fila_resumen mv = (\<lambda>_. Null)(col_Metrica := Str (fst mv), ''Valor'' := snd mv)"

definition contar_unicos :: "frame \<Rightarrow> string \<Rightarrow> error + cell" where
  "contar_unicos df c =
     (if \<not> empty_df df
      then bindE (getcol df c) (\<lambda>serie. Inr (num_of_nat (length (unique_values serie))))
      else Inr (num_of_nat 0))"

definition crear_hoja_resumen :: "aritmetica \<Rightarrow> frame \<Rightarrow> frame \<Rightarrow> frame \<Rightarrow> error + frame" where
  "crear_hoja_resumen ar ventas_df pagos_df stock_df =
     (case calcular_kpis ar ventas_df pagos_df of (total_ventas, total_pagado, pendiente) \<Rightarrow>
        bindE (contar_unicos ventas_df ''Producto'') (\<lambda>productos_unicos.
        bindE (contar_unicos ventas_df ''Nombre_Cliente'') (\<lambda>clientes_unicos.
        bindE (if \<not> empty_df stock_df
               then bindE (filtrar_cmp stock_df ''Stock_Total'' gt_zero) (\<lambda>en_stock.
                      Inr (num_of_nat (len_df en_stock)))
               else Inr (num_of_nat 0)) (\<lambda>materiales_en_stock.
        bindE (contar_unicos stock_df ''Centro'') (\<lambda>centros.
        bindE (if \<not> empty_df stock_df
               then bindE (getcol stock_df ''Stock_Total'') (sum_series (sum_stock ar))
               else Inr (num_of_nat 0)) (\<lambda>stock_total.
        Inr \<lparr>cols = [col_Metrica, ''Valor''],
             rws = map fila_resumen (zip metricas
               [total_ventas, total_pagado, pendiente, productos_unicos, clientes_unicos,
                num_of_nat (len_df ventas_df), num_of_nat (len_df pagos_df),
                materiales_en_stock, centros, stock_total])\<rparr>))))))"

definition generar_reporte_excel_try ::
  "aritmetica \<Rightarrow> frame \<Rightarrow> frame \<Rightarrow> frame \<Rightarrow> bool \<Rightarrow> error + workbook" where
  "generar_reporte_excel_try ar ventas_df pagos_df stock_df incluir_resumen =
     (let hojas = [(''Ventas'', ventas_df), (''Pagos'', pagos_df), (''Stock'', stock_df)]
      in if incluir_resumen
         then bindE (crear_hoja_resumen ar ventas_df pagos_df stock_df) (\<lambda>resumen_df.
                Inr (hojas @ [(''Resumen'', resumen_df)]))
         else Inr hojas)"

definition generar_reporte_excel ::
  "aritmetica \<Rightarrow> frame \<Rightarrow> frame \<Rightarrow> frame \<Rightarrow> bool \<Rightarrow> error + workbook" where
  "generar_reporte_excel ar ventas_df pagos_df stock_df incluir_resumen =
     (case generar_reporte_excel_try ar ventas_df pagos_df stock_df incluir_resumen of
        Inr libro \<Rightarrow> Inr libro
      | Inl e \<Rightarrow> Inl (ReportException e))"

text \<open>
  The summary sheet as the specification describes it, metric by metric: the three KPIs of
  the sales and payments tables given, the numbers of distinct products and of distinct
  customers, the numbers of sales rows and of payment rows, the number of stock rows with a
  positive quantity, the number of distinct centres and the total of the stock quantities
  (0 when no quantity is present, the column's own sum otherwise).
\<close>

fun positivo :: "cell \<Rightarrow> bool" where
  "positivo (Num (Fin a)) = (0 < a)"
| "positivo (Num PInf) = True"
| "positivo _ = False"

definition distintos :: "frame \<Rightarrow> string \<Rightarrow> cell" where
  "distintos df c = num_of_nat (card (set (columna df c)))"

definition en_stock :: "frame \<Rightarrow> cell" where
  "en_stock s = num_of_nat (length (filter (\<lambda>r. positivo (r ''Stock_Total'')) (rws s)))"

definition total_stock :: "aritmetica \<Rightarrow> frame \<Rightarrow> cell" where
  "total_stock ar s =
     (if list_all (\<lambda>c. c = Null) (columna s ''Stock_Total'') then Num (Fin 0)
      else num_cell (sum_stock ar (map cell_num (columna s ''Stock_Total''))))"

definition hoja_resumen :: "aritmetica \<Rightarrow> frame \<Rightarrow> frame \<Rightarrow> frame \<Rightarrow> frame" where
  "hoja_resumen ar v p s =
     \<lparr>cols = [''M'' @ [CHR 0xC3, CHR 0xA9] @ ''trica'', ''Valor''],
      rws = map fila_resumen
        [(''Total Ventas'', fst (calcular_kpis ar v p)),
         (''Total Pagado'', fst (snd (calcular_kpis ar v p))),
         (''Pendiente por Cobrar'', snd (snd (calcular_kpis ar v p))),
         (''Productos '' @ [CHR 0xC3, CHR 0x9A] @ ''nicos'', distintos v ''Producto''),
         (''Clientes '' @ [CHR 0xC3, CHR 0x9A] @ ''nicos'', distintos v ''Nombre_Cliente''),
         (''Transacciones de Venta'', num_of_nat (length (rws v))),
         (''Transacciones de Pago'', num_of_nat (length (rws p))),
         (''Materiales en Stock'', en_stock s),
         (''Centros de Distribuci'' @ [CHR 0xC3, CHR 0xB3] @ ''n'', distintos s ''Centro''),
         (''Stock Total (Unidades)'', total_stock ar s)]\<rparr>"

section \<open>Example tables\<close>

text \<open>Small tables on which the theorems below are evaluated.\<close>

definition fila_venta :: "cell \<Rightarrow> cell \<Rightarrow> cell \<Rightarrow> row" where
  "fila_venta doc cantidad valor =
     (\<lambda>_. Null)(''Doc_Venta'' := doc, ''Cantidad'' := cantidad, ''Valor_Neto'' := valor)"

definition fila_pago :: "cell \<Rightarrow> cell \<Rightarrow> row" where
  "fila_pago ref monto = (\<lambda>_. Null)(''Referencia_Factura'' := ref, ''Monto_Pago'' := monto)"

definition ventas_ej :: frame where
  "ventas_ej = \<lparr>cols = [''Doc_Venta'', ''Cantidad'', ''Valor_Neto''],
     rws = [fila_venta (Num (Fin 1)) (Num (Fin 2)) (Num (Fin 100))]\<rparr>"

definition pagos_ej :: frame where
  "pagos_ej = \<lparr>cols = [''Referencia_Factura'', ''Monto_Pago''],
     rws = [fila_pago (Num (Fin 1)) (Num (Fin 150)), fila_pago (Num (Fin 2)) (Num (Fin 999))]\<rparr>"

definition ventas_2lineas :: frame where
  "ventas_2lineas = \<lparr>cols = [''Doc_Venta'', ''Cantidad'', ''Valor_Neto''],
     rws = [fila_venta (Num (Fin 1)) (Num (Fin 2)) (Num (Fin 100)),
            fila_venta (Num (Fin 1)) (Num (Fin 1)) (Num (Fin 50))]\<rparr>"

definition ventas_grande :: frame where
  "ventas_grande = \<lparr>cols = [''Doc_Venta'', ''Cantidad'', ''Valor_Neto''],
     rws = [fila_venta (Num (Fin 1)) (Num (Fin 4294967296)) (Num (Fin 4294967296))]\<rparr>"

definition ventas_vacia :: frame where
  "ventas_vacia = \<lparr>cols = [''Doc_Venta'', ''Cantidad'', ''Valor_Neto''], rws = []\<rparr>"

definition ventas_sin_cantidad :: frame where
  "ventas_sin_cantidad = \<lparr>cols = [''Doc_Venta'', ''Valor_Neto''],
     rws = [fila_venta (Num (Fin 1)) Null (Num (Fin 100))]\<rparr>"

definition fila_filtro :: "string \<Rightarrow> string \<Rightarrow> string \<Rightarrow> row" where
  "fila_filtro producto cliente moneda =
     (\<lambda>_. Null)(''Producto'' := Str producto, ''Nombre_Cliente'' := Str cliente,
                 ''Moneda'' := Str moneda)"

definition ventas_sin_cliente :: frame where
  "ventas_sin_cliente = \<lparr>cols = [''Producto'', ''Moneda''],
     rws = [fila_filtro ''Laptop'' ''Acme'' ''COP'', fila_filtro ''Router'' ''Acme'' ''USD'']\<rparr>"

definition ventas_filtro :: frame where
  "ventas_filtro = \<lparr>cols = [''Producto'', ''Nombre_Cliente'', ''Moneda''],
     rws = [fila_filtro ''Laptop'' ''Acme'' ''COP'', fila_filtro ''Router'' ''Acme'' ''USD'']\<rparr>"


definition fila_fecha :: "cell \<Rightarrow> row" where
  "fila_fecha f = (\<lambda>_. Null)(''Fecha_Doc'' := f)"


text \<open>
  A directory holding only the stock file, a reader that returns an empty sheet, and
  parsers that read nothing.
\<close>

definition solo_stock :: "string \<Rightarrow> bool" where
  "solo_stock archivo = (archivo = ''MM_stock_actual.xlsx'')"

definition leer_vacio :: "string \<Rightarrow> error + frame" where
  "leer_vacio archivo = Inr \<lparr>cols = [], rws = []\<rparr>"

definition sin_numero :: "cell \<Rightarrow> xnum option" where
  "sin_numero c = None"

definition sin_fecha :: "cell \<Rightarrow> int option" where
  "sin_fecha c = None"

text \<open>
  Raw tables for the cleaner: a sale with an unreadable date and an unreadable quantity, a
  sale without document id, a sale without quantity; and a sale whose quantity is infinite.
\<close>

definition fila_sucia :: "cell \<Rightarrow> cell \<Rightarrow> cell \<Rightarrow> cell \<Rightarrow> row" where
  "fila_sucia doc fecha cantidad valor =
     (\<lambda>_. Null)(''Doc_Venta'' := doc, ''Fecha_Doc'' := fecha, ''Cantidad'' := cantidad,
                 ''Valor_Neto'' := valor)"

definition ventas_sucia :: frame where
  "ventas_sucia = \<lparr>cols = [''Doc_Venta'', ''Fecha_Doc'', ''Cantidad'', ''Valor_Neto''],
     rws = [fila_sucia (Num (Fin 1)) (Str ''ayer'') (Str ''dos'') (Num (Fin 100)),
            fila_sucia Null (Date 5) (Num (Fin 1)) (Num (Fin 1)),
            fila_sucia (Num (Fin 3)) (Date 7) Null (Num (Fin 50))]\<rparr>"

definition pagos_sucia :: frame where
  "pagos_sucia = \<lparr>cols = [''Referencia_Factura'', ''Monto_Pago''],
     rws = [fila_pago (Num (Fin 1)) (Str ''x''), fila_pago Null (Num (Fin 5))]\<rparr>"

definition stock_sucia :: frame where
  "stock_sucia = \<lparr>cols = [''Stock_Total''], rws = [(\<lambda>_. Null)]\<rparr>"

definition limpieza_ej :: "error + (frame \<times> frame \<times> frame)" where
  "limpieza_ej = limpiar_datos sin_numero sin_fecha (ventas_sucia, pagos_sucia, stock_sucia)"

definition ventas_inf :: frame where
  "ventas_inf = \<lparr>cols = [''Doc_Venta'', ''Cantidad'', ''Valor_Neto''],
     rws = [fila_venta (Num (Fin 1)) (Num PInf) (Num (Fin 100))]\<rparr>"

definition stock_vacio :: frame where
  "stock_vacio = \<lparr>cols = [''Stock_Total''], rws = []\<rparr>"

definition limpieza_inf :: "error + (frame \<times> frame \<times> frame)" where
  "limpieza_inf = limpiar_datos sin_numero sin_fecha (ventas_inf, pagos_ej, stock_vacio)"

text \<open>Tables for a report: two sales of one customer, three stock rows in two centres.\<close>

definition fila_rep :: "cell \<Rightarrow> string \<Rightarrow> string \<Rightarrow> cell \<Rightarrow> cell \<Rightarrow> row" where
  "fila_rep doc producto cliente cantidad valor =
     (\<lambda>_. Null)(''Doc_Venta'' := doc, ''Producto'' := Str producto,
                 ''Nombre_Cliente'' := Str cliente, ''Cantidad'' := cantidad,
                 ''Valor_Neto'' := valor)"

definition ventas_rep :: frame where
  "ventas_rep = \<lparr>cols = [''Doc_Venta'', ''Producto'', ''Nombre_Cliente'', ''Cantidad'', ''Valor_Neto''],
     rws = [fila_rep (Num (Fin 1)) ''Laptop'' ''Acme'' (Num (Fin 2)) (Num (Fin 100)),
            fila_rep (Num (Fin 3)) ''Router'' ''Acme'' (Num (Fin 1)) (Num (Fin 300))]\<rparr>"

definition fila_stock :: "cell \<Rightarrow> string \<Rightarrow> row" where
  "fila_stock cantidad centro = (\<lambda>_. Null)(''Stock_Total'' := cantidad, ''Centro'' := Str centro)"

definition stock_rep :: frame where
  "stock_rep = \<lparr>cols = [''Stock_Total'', ''Centro''],
     rws = [fila_stock (Num (Fin 10)) ''1100'', fila_stock (Num (Fin 0)) ''1100'',
            fila_stock (Num (Fin 5)) ''1200'']\<rparr>"

section \<open>Basic facts about the pandas operations\<close>

lemma bindE_Inr [simp]: "bindE (Inr x) f = f x"
  by (simp add: bindE_def)

lemma bindE_Inl [simp]: "bindE (Inl e) f = Inl e"
  by (simp add: bindE_def)

lemma bindE_assoc: "bindE (bindE m f) g = bindE m (\<lambda>x. bindE (f x) g)"
  by (cases m) simp_all

lemma is_fin_conv: "is_fin c \<longleftrightarrow> c = Num (Fin (fin_val c))"
  by (cases c rule: is_fin.cases) auto

lemma mask_filter: "map fst (filter snd (zip xs (map P xs))) = filter P xs"
  by (induction xs) auto

lemma select_mask_map: "select_mask df (map P (rws df)) = df\<lparr>rws := filter P (rws df)\<rparr>"
  by (simp add: select_mask_def mask_filter)

lemma select_none: "map fst (filter snd (zip rs (map (\<lambda>c. False) xs))) = []"
  by (induction rs arbitrary: xs) (auto simp: zip_Cons1 split: list.splits)

lemma set_unique_values [simp]: "set (unique_values xs) = set xs"
  by (simp add: unique_values_def)

lemma seleccion_pagos:
  "select_mask pagos_df (isin (map (\<lambda>r. r ''Referencia_Factura'') (rws pagos_df))
      (unique_values (map (\<lambda>r. r ''Doc_Venta'') (rws ventas_df))))
   = pagos_df\<lparr>rws := filter (matched ventas_df) (rws pagos_df)\<rparr>"
  using select_mask_map [of pagos_df "matched ventas_df"]
  by (simp add: isin_def matched_def [abs_def] comp_def)

lemma num_cell_num_or_null [simp]: "is_num_or_null (num_cell x)"
  by (cases x) simp_all

lemma cmul_num_or_null: "cmul f a b = Inr c \<Longrightarrow> is_num_or_null c"
  by (cases a; cases b) auto

lemma cmul_multiplicable: "multiplicable a b \<Longrightarrow> \<exists>c. cmul f a b = Inr c"
  by (cases a; cases b) simp_all

lemma sum_series_num_or_null: "sum_series f xs = Inr t \<Longrightarrow> is_num_or_null t"
  by (auto simp: sum_series_def split: if_splits)

lemma csub_total: "is_num_or_null a \<Longrightarrow> is_num_or_null b \<Longrightarrow> \<exists>c. csub f a b = Inr c"
  by (simp add: csub_def)

lemma mapE_ok:
  "\<forall>x\<in>set xs. \<exists>y. f x = Inr y \<Longrightarrow> \<exists>ys. mapE f xs = Inr ys \<and> length ys = length xs \<and>
     (\<forall>y\<in>set ys. \<exists>x\<in>set xs. f x = Inr y)"
proof (induction xs)
  case Nil
  then show ?case by simp
next
  case (Cons x xs)
  then obtain y ys where "f x = Inr y" "mapE f xs = Inr ys" "length ys = length xs"
    "\<forall>y\<in>set ys. \<exists>x\<in>set xs. f x = Inr y"
    by auto
  then show ?case by auto
qed

lemma mapE_total: "\<forall>x\<in>set xs. f x = Inr (g x) \<Longrightarrow> mapE f xs = Inr (map g xs)"
  by (induction xs) simp_all

lemma zip_map_map_same: "zip (map f rs) (map g rs) = map (\<lambda>r. (f r, g r)) rs"
  by (induction rs) simp_all

lemma mapE_map: "mapE f (map g xs) = mapE (f \<circ> g) xs"
  by (induction xs) simp_all

lemma mul_series_rows:
  "mul_series f (map q rs) (map n rs) = mapE (\<lambda>r. cmul f (q r) (n r)) rs"
  by (simp add: mul_series_def zip_map_map_same mapE_map comp_def)

lemma sum_series_exacta:
  assumes "rs \<noteq> [] \<longrightarrow> f (map (\<lambda>r. Some (Fin (h r))) rs) = Some (Fin (sum_list (map h rs)))"
  shows "sum_series f (map (\<lambda>r. Num (Fin (h r))) rs) = Inr (Num (Fin (sum_list (map h rs))))"
proof (cases "rs = []")
  case True
  then show ?thesis by (simp add: sum_series_def)
next
  case False
  then have "\<not> list_all (\<lambda>c. c = Null) (map (\<lambda>r. Num (Fin (h r))) rs)"
    by (cases rs) simp_all
  moreover have "list_all is_num_or_null (map (\<lambda>r. Num (Fin (h r))) rs)"
    by (simp add: list_all_iff)
  ultimately show ?thesis
    using assms False by (simp add: sum_series_def comp_def)
qed

section \<open>KPI calculation: the totals\<close>

lemma cmul_fin:
  "is_fin a \<Longrightarrow> is_fin b \<Longrightarrow>
   cmul f a b = Inr (num_cell (f (Fin (fin_val a)) (Fin (fin_val b))))"
  by (cases a rule: is_fin.cases; cases b rule: is_fin.cases) simp_all

lemma importes_exactos:
  assumes "\<forall>r\<in>set rs. is_fin (r ''Cantidad'') \<and> is_fin (r ''Valor_Neto'')"
    and "\<forall>r\<in>set rs. f (Fin (fin_val (r ''Cantidad''))) (Fin (fin_val (r ''Valor_Neto'')))
           = Some (Fin (importe r))"
  shows "mul_series f (map (\<lambda>r. r ''Cantidad'') rs) (map (\<lambda>r. r ''Valor_Neto'') rs)
     = Inr (map (\<lambda>r. Num (Fin (importe r))) rs)"
proof -
  have "\<forall>r\<in>set rs. cmul f (r ''Cantidad'') (r ''Valor_Neto'') = Inr (Num (Fin (importe r)))"
    using assms by (simp add: cmul_fin)
  then show ?thesis
    unfolding mul_series_rows by (rule mapE_total)
qed

lemma csub_exacta:
  assumes "f (Some (Fin a)) (Some (Fin b)) = Some (Fin (a - b))"
  shows "csub f (Num (Fin a)) (Num (Fin b)) = Inr (Num (Fin (a - b)))"
  using assms by (simp add: csub_def)

text \<open>
  Claim C1, as the code has it. On a sales table and a payments table with the columns the
  calculation reads and finite amounts in them, and with the arithmetic of the call exact
  on these tables, \<open>calcular_kpis\<close> returns the total of quantity times net value over
  the sales rows, the total of the amounts of exactly the payments whose invoice reference
  is the document id of some sales row of the table given, and their difference. The
  witness is the example of the specification in int64 columns: one sale of 2 units at 100
  with document 1, payments of 150 for document 1 and of 999 for document 2, result
  (200, 150, 50).
\<close>

theorem calcular_kpis_totals:
  assumes "{''Cantidad'', ''Valor_Neto'', ''Doc_Venta''} \<subseteq> set (cols ventas_df)"
    and "{''Referencia_Factura'', ''Monto_Pago''} \<subseteq> set (cols pagos_df)"
    and "\<forall>r\<in>set (rws ventas_df). is_fin (r ''Cantidad'') \<and> is_fin (r ''Valor_Neto'')"
    and "\<forall>p\<in>set (rws pagos_df). is_fin (p ''Monto_Pago'')"
    and "exacta ar ventas_df pagos_df"
  shows "calcular_kpis ar ventas_df pagos_df =
    (Num (Fin (suma_ventas ventas_df)),
     Num (Fin (suma_pagada ventas_df pagos_df)),
     Num (Fin (suma_ventas ventas_df - suma_pagada ventas_df pagos_df)))"
proof -
  let ?ap = "pagos_aplicados ventas_df pagos_df"
  from assms(5) have e1: "\<forall>r\<in>set (rws ventas_df).
         mul_importes ar (Fin (fin_val (r ''Cantidad''))) (Fin (fin_val (r ''Valor_Neto'')))
           = Some (Fin (importe r))"
    and e2: "rws ventas_df \<noteq> [] \<longrightarrow>
           sum_importes ar (map (\<lambda>r. Some (Fin (importe r))) (rws ventas_df))
             = Some (Fin (sum_list (map importe (rws ventas_df))))"
    and e3: "?ap \<noteq> [] \<longrightarrow>
           sum_pagos ar (map (\<lambda>p. Some (Fin (fin_val (p ''Monto_Pago'')))) ?ap)
             = Some (Fin (sum_list (map (\<lambda>p. fin_val (p ''Monto_Pago'')) ?ap)))"
    and e4: "sub_totales ar (Some (Fin (suma_ventas ventas_df)))
                        (Some (Fin (suma_pagada ventas_df pagos_df)))
           = Some (Fin (suma_ventas ventas_df - suma_pagada ventas_df pagos_df))"
    by (simp_all add: exacta_def suma_ventas_def suma_pagada_def)
  have prod: "mul_series (mul_importes ar) (map (\<lambda>r. r ''Cantidad'') (rws ventas_df))
        (map (\<lambda>r. r ''Valor_Neto'') (rws ventas_df))
      = Inr (map (\<lambda>r. Num (Fin (importe r))) (rws ventas_df))"
    by (rule importes_exactos [OF assms(3) e1])
  have tv: "sum_series (sum_importes ar) (map (\<lambda>r. Num (Fin (importe r))) (rws ventas_df))
      = Inr (Num (Fin (suma_ventas ventas_df)))"
    unfolding suma_ventas_def
    using e2 by (rule sum_series_exacta [of "rws ventas_df" "sum_importes ar" importe])
  have mp: "map (\<lambda>r. r ''Monto_Pago'') ?ap = map (\<lambda>p. Num (Fin (fin_val (p ''Monto_Pago'')))) ?ap"
    using assms(4) by (simp add: is_fin_conv [symmetric] pagos_aplicados_def)
  have tp: "sum_series (sum_pagos ar) (map (\<lambda>r. r ''Monto_Pago'') ?ap)
      = Inr (Num (Fin (suma_pagada ventas_df pagos_df)))"
    unfolding mp suma_pagada_def
    using e3 by (rule sum_series_exacta [of ?ap "sum_pagos ar" "\<lambda>p. fin_val (p ''Monto_Pago'')"])
  have pe: "csub (sub_totales ar) (Num (Fin (suma_ventas ventas_df)))
        (Num (Fin (suma_pagada ventas_df pagos_df)))
      = Inr (Num (Fin (suma_ventas ventas_df - suma_pagada ventas_df pagos_df)))"
    using e4 by (rule csub_exacta)
  have "calcular_kpis_try ar ventas_df pagos_df =
    Inr (Num (Fin (suma_ventas ventas_df)),
     Num (Fin (suma_pagada ventas_df pagos_df)),
     Num (Fin (suma_ventas ventas_df - suma_pagada ventas_df pagos_df)))"
    using assms(1,2) tp
    by (simp add: calcular_kpis_try_def getcol_def seleccion_pagos prod tv pe
        pagos_aplicados_def)
  then show ?thesis by (simp add: calcular_kpis_def)
qed

lemmas int64_eval = aritmetica_int64_def int64_def sum_int64_def wrap64_def

theorem calcular_kpis_totals_witness:
  "exacta aritmetica_int64 ventas_ej pagos_ej
   \<and> calcular_kpis aritmetica_int64 ventas_ej pagos_ej
       = (Num (Fin 200), Num (Fin 150), Num (Fin 50))"
proof -
  have a: "{''Cantidad'', ''Valor_Neto'', ''Doc_Venta''} \<subseteq> set (cols ventas_ej)"
    by (simp add: ventas_ej_def)
  have b: "{''Referencia_Factura'', ''Monto_Pago''} \<subseteq> set (cols pagos_ej)"
    by (simp add: pagos_ej_def)
  have c: "\<forall>r\<in>set (rws ventas_ej). is_fin (r ''Cantidad'') \<and> is_fin (r ''Valor_Neto'')"
    by (simp add: ventas_ej_def fila_venta_def)
  have d: "\<forall>p\<in>set (rws pagos_ej). is_fin (p ''Monto_Pago'')"
    by (simp add: pagos_ej_def fila_pago_def)
  have s: "suma_ventas ventas_ej = 200" "suma_pagada ventas_ej pagos_ej = 150"
    "pagos_aplicados ventas_ej pagos_ej = [fila_pago (Num (Fin 1)) (Num (Fin 150))]"
    by (simp_all add: suma_ventas_def suma_pagada_def pagos_aplicados_def matched_def importe_def
        ventas_ej_def pagos_ej_def fila_venta_def fila_pago_def)
  have e: "exacta aritmetica_int64 ventas_ej pagos_ej"
    unfolding exacta_def s
    by (simp add: importe_def ventas_ej_def fila_venta_def fila_pago_def int64_eval)
  from calcular_kpis_totals [OF a b c d e] e s show ?thesis by simp
qed

text \<open>
  Claim C1 as the specification states it holds for every table. In int64 columns a
  quantity of \<open>2 ^ 32\<close> at a net value of \<open>2 ^ 32\<close> has the product \<open>2 ^ 64\<close>, which wraps
  around to 0: the total returned is 0, not the sum of quantity times net value.
\<close>

theorem calcular_kpis_desborda_counterexample:
  "fst (calcular_kpis aritmetica_int64 ventas_grande pagos_ej) = Num (Fin 0)
   \<and> suma_ventas ventas_grande = 18446744073709551616
   \<and> fst (calcular_kpis aritmetica_int64 ventas_grande pagos_ej)
       \<noteq> Num (Fin (suma_ventas ventas_grande))"
  by (simp add: calcular_kpis_def calcular_kpis_try_def getcol_def ventas_grande_def pagos_ej_def
      fila_venta_def fila_pago_def mul_series_def sum_series_def csub_def select_mask_def
      isin_def unique_values_def int64_eval suma_ventas_def importe_def)

section \<open>KPI calculation: failures and the paid total\<close>

lemma ventas_ok_total:
  assumes "ventas_ok v"
  shows "\<exists>tv. is_num_or_null tv \<and>
     calcular_kpis_try ar v p =
       bindE (pagado_try ar v p) (\<lambda>tp. bindE (csub (sub_totales ar) tv tp) (\<lambda>pe. Inr (tv, tp, pe)))"
proof -
  let ?f = "\<lambda>r. cmul (mul_importes ar) (r ''Cantidad'') (r ''Valor_Neto'')"
  from assms have c: "''Cantidad'' \<in> set (cols v)" "''Valor_Neto'' \<in> set (cols v)"
    "''Doc_Venta'' \<in> set (cols v)"
    and m: "\<forall>r\<in>set (rws v). multiplicable (r ''Cantidad'') (r ''Valor_Neto'')"
    by (simp_all add: ventas_ok_def)
  from m have ok: "\<forall>r\<in>set (rws v). \<exists>c. ?f r = Inr c"
    by (simp add: cmul_multiplicable)
  from mapE_ok [OF ok] obtain ys where ys: "mapE ?f (rws v) = Inr ys"
    "\<forall>y\<in>set ys. \<exists>r\<in>set (rws v). ?f r = Inr y"
    by blast
  have "list_all is_num_or_null ys"
    using ys(2) by (auto simp: list_all_iff dest: cmul_num_or_null)
  then obtain tv where tv: "sum_series (sum_importes ar) ys = Inr tv"
    by (simp add: sum_series_def)
  then have n: "is_num_or_null tv"
    by (rule sum_series_num_or_null)
  have "calcular_kpis_try ar v p =
       bindE (pagado_try ar v p) (\<lambda>tp. bindE (csub (sub_totales ar) tv tp) (\<lambda>pe. Inr (tv, tp, pe)))"
    using c ys(1) tv
    by (simp add: calcular_kpis_try_def pagado_try_def getcol_def mul_series_rows
        seleccion_pagos bindE_assoc)
  with n show ?thesis by blast
qed

lemma pagado_try_num_or_null:
  assumes "pagado_try ar v p = Inr tp"
  shows "is_num_or_null tp"
proof -
  have "\<exists>xs. sum_series (sum_pagos ar) xs = Inr tp"
    using assms
    by (cases "''Referencia_Factura'' \<in> set (cols p)"; cases "''Monto_Pago'' \<in> set (cols p)")
      (auto simp add: pagado_try_def getcol_def)
  then show ?thesis by (auto dest: sum_series_num_or_null)
qed

lemma kpis_pagado:
  assumes "ventas_ok v"
  shows "fst (snd (calcular_kpis ar v p)) =
     (case pagado_try ar v p of Inr tp \<Rightarrow> tp | Inl e \<Rightarrow> Num (Fin 0))"
proof -
  from ventas_ok_total [OF assms] obtain tv where tv: "is_num_or_null tv"
    "calcular_kpis_try ar v p =
       bindE (pagado_try ar v p) (\<lambda>tp. bindE (csub (sub_totales ar) tv tp) (\<lambda>pe. Inr (tv, tp, pe)))"
    by blast
  show ?thesis
  proof (cases "pagado_try ar v p")
    case (Inl e)
    with tv show ?thesis by (simp add: calcular_kpis_def)
  next
    case (Inr tp)
    from csub_total [OF tv(1) pagado_try_num_or_null [OF Inr]]
    obtain pe where "csub (sub_totales ar) tv tp = Inr pe" ..
    with tv Inr show ?thesis by (simp add: calcular_kpis_def)
  qed
qed

lemmas kpis_eval = calcular_kpis_def calcular_kpis_try_def getcol_def fila_venta_def fila_pago_def
  mul_series_def sum_series_def csub_def select_mask_def isin_def unique_values_def
  aritmetica_int64_def int64_def sum_int64_def wrap64_def

lemma pagado_ej: "fst (snd (calcular_kpis aritmetica_int64 ventas_ej pagos_ej)) = Num (Fin 150)"
  by (simp add: kpis_eval ventas_ej_def pagos_ej_def)

text \<open>
  Claim C10. The paid total does not depend on how often a document id occurs among the
  sales rows: two sales tables on which the calculation does not raise and whose rows carry
  the same set of document ids, on however many rows each, give the same paid total against
  any payments table. In the witness document 1 has two different sales rows and the
  payment of 150 for it is counted once.
\<close>

theorem pagado_sin_multiplicar:
  assumes "ventas_ok v" and "ventas_ok v'"
    and "(\<lambda>r. r ''Doc_Venta'') ` set (rws v') = (\<lambda>r. r ''Doc_Venta'') ` set (rws v)"
  shows "fst (snd (calcular_kpis ar v' p)) = fst (snd (calcular_kpis ar v p))"
proof -
  have "matched v' = matched v"
    using assms(3) by (simp add: matched_def [abs_def])
  then have "pagado_try ar v' p = pagado_try ar v p"
    by (simp add: pagado_try_def)
  then show ?thesis
    by (simp add: kpis_pagado [OF assms(1)] kpis_pagado [OF assms(2)])
qed

theorem pagado_sin_multiplicar_witness:
  "ventas_ok ventas_ej \<and> ventas_ok ventas_2lineas
   \<and> columna ventas_2lineas ''Doc_Venta'' = [Num (Fin 1), Num (Fin 1)]
   \<and> columna ventas_ej ''Doc_Venta'' = [Num (Fin 1)]
   \<and> fst (snd (calcular_kpis aritmetica_int64 ventas_2lineas pagos_ej)) = Num (Fin 150)"
proof -
  have a: "ventas_ok ventas_ej" "ventas_ok ventas_2lineas"
    by (simp_all add: ventas_ok_def ventas_ej_def ventas_2lineas_def fila_venta_def)
  have b: "(\<lambda>r. r ''Doc_Venta'') ` set (rws ventas_2lineas)
      = (\<lambda>r. r ''Doc_Venta'') ` set (rws ventas_ej)"
    by (simp add: ventas_ej_def ventas_2lineas_def fila_venta_def)
  have c: "columna ventas_2lineas ''Doc_Venta'' = [Num (Fin 1), Num (Fin 1)]"
    "columna ventas_ej ''Doc_Venta'' = [Num (Fin 1)]"
    by (simp_all add: columna_def ventas_ej_def ventas_2lineas_def fila_venta_def)
  from pagado_sin_multiplicar [OF a b, of aritmetica_int64 pagos_ej] pagado_ej a c
  show ?thesis by simp
qed

lemma kpis_sin_filas:
  assumes "rws ventas_df = []"
  shows "calcular_kpis ar ventas_df pagos_df = (Num (Fin 0), Num (Fin 0), Num (Fin 0))"
proof (cases "calcular_kpis_try ar ventas_df pagos_df")
  case (Inl e)
  then show ?thesis by (simp add: calcular_kpis_def)
next
  case (Inr k)
  have v: "getcol ventas_df c = (if c \<in> set (cols ventas_df) then Inr [] else Inl (KeyError c))" for c
    using assms by (simp add: getcol_def)
  have sel: "select_mask pagos_df (isin xs (unique_values [])) = pagos_df\<lparr>rws := []\<rparr>" for xs
    by (simp add: select_mask_def isin_def unique_values_def select_none)
  have p: "getcol (pagos_df\<lparr>rws := []\<rparr>) c = (if c \<in> set (cols pagos_df) then Inr [] else Inl (KeyError c))" for c
    by (simp add: getcol_def)
  have s: "sum_series f [] = Inr (Num (Fin 0))" for f
    by (simp add: sum_series_def)
  have m: "mul_series f [] [] = Inr []" for f
    by (simp add: mul_series_def)
  have z: "csub f (Num (Fin 0)) (Num (Fin 0)) = Inr (Num (Fin 0))" for f
    by (simp add: csub_def)
  have "k = (Num (Fin 0), Num (Fin 0), Num (Fin 0))"
  proof (cases "getcol pagos_df ''Referencia_Factura''")
    case (Inl e)
    with Inr show ?thesis
      by (simp add: calcular_kpis_try_def v s m split: if_splits)
  next
    case ref: (Inr xs)
    with Inr show ?thesis
      by (simp add: calcular_kpis_try_def v s m z sel p split: if_splits)
  qed
  with Inr show ?thesis by (simp add: calcular_kpis_def)
qed

text \<open>
  Claim C6. \<open>calcular_kpis\<close> has no exceptional outcome: on an empty sales table, with any
  payments table, it returns (0, 0, 0), and whenever the body of its \<^verbatim>\<open>try\<close> raises, it
  returns (0.0, 0.0, 0.0), whatever the arithmetic of the call. The witness evaluates both:
  a sales table without rows, and a sales table without the column \<^verbatim>\<open>Cantidad\<close>, whose
  \<^verbatim>\<open>KeyError\<close> is caught.
\<close>

theorem calcular_kpis_nunca_falla:
  "(empty_df ventas_df \<longrightarrow>
      calcular_kpis ar ventas_df pagos_df = (Num (Fin 0), Num (Fin 0), Num (Fin 0)))
   \<and> (\<forall>e. calcular_kpis_try ar ventas_df pagos_df = Inl e \<longrightarrow>
        calcular_kpis ar ventas_df pagos_df = (Num (Fin 0), Num (Fin 0), Num (Fin 0)))"
proof (intro conjI impI allI)
  fix e assume "calcular_kpis_try ar ventas_df pagos_df = Inl e"
  then show "calcular_kpis ar ventas_df pagos_df = (Num (Fin 0), Num (Fin 0), Num (Fin 0))"
    by (simp add: calcular_kpis_def)
next
  assume "empty_df ventas_df"
  then consider "cols ventas_df = []" | "rws ventas_df = []"
    by (auto simp: empty_df_def)
  then show "calcular_kpis ar ventas_df pagos_df = (Num (Fin 0), Num (Fin 0), Num (Fin 0))"
  proof cases
    case 1
    then show ?thesis
      by (simp add: calcular_kpis_def calcular_kpis_try_def getcol_def)
  next
    case 2
    then show ?thesis by (rule kpis_sin_filas)
  qed
qed

theorem calcular_kpis_nunca_falla_witness:
  "empty_df ventas_vacia
   \<and> calcular_kpis aritmetica_int64 ventas_vacia pagos_ej
       = (Num (Fin 0), Num (Fin 0), Num (Fin 0))
   \<and> calcular_kpis_try aritmetica_int64 ventas_sin_cantidad pagos_ej = Inl (KeyError ''Cantidad'')
   \<and> calcular_kpis aritmetica_int64 ventas_sin_cantidad pagos_ej
       = (Num (Fin 0), Num (Fin 0), Num (Fin 0))"
proof -
  have e: "empty_df ventas_vacia"
    by (simp add: empty_df_def ventas_vacia_def)
  have f: "calcular_kpis_try aritmetica_int64 ventas_sin_cantidad pagos_ej
      = Inl (KeyError ''Cantidad'')"
    by (simp add: calcular_kpis_try_def getcol_def ventas_sin_cantidad_def)
  from e f calcular_kpis_nunca_falla [of ventas_vacia aritmetica_int64 pagos_ej]
    calcular_kpis_nunca_falla [of ventas_sin_cantidad aritmetica_int64 pagos_ej]
  show ?thesis by simp
qed

section \<open>Filters\<close>

lemma frame_rws_id [simp]: "df\<lparr>rws := rws df\<rparr> = df"
  by simp

lemma filtrar_isin_char:
  "filtrar_isin df c vals =
     (if c \<in> set (cols df) then Inr (df\<lparr>rws := filter (\<lambda>r. r c \<in> Str ` set vals) (rws df)\<rparr>)
      else Inl (KeyError c))"
  using select_mask_map [of df "\<lambda>r. r c \<in> Str ` set vals"]
  by (simp add: filtrar_isin_def getcol_def isin_def comp_def)

lemma filtrar_eq_char:
  "filtrar_eq df c s =
     (if c \<in> set (cols df) then Inr (df\<lparr>rws := filter (\<lambda>r. r c = Str s) (rws df)\<rparr>)
      else Inl (KeyError c))"
  using select_mask_map [of df "\<lambda>r. r c = Str s"]
  by (simp add: filtrar_eq_def getcol_def eq_text_def comp_def)

lemma etapa_lista:
  "(case vs of Some ps \<Rightarrow> if ps \<noteq> [] then filtrar_isin df c ps else Inr df | None \<Rightarrow> Inr df) =
     (if activo vs \<longrightarrow> c \<in> set (cols df)
      then Inr (df\<lparr>rws := filter (\<lambda>r. pasa_lista vs (r c)) (rws df)\<rparr>)
      else Inl (KeyError c))"
  by (cases vs) (simp_all add: filtrar_isin_char)

lemma etapa_moneda:
  "(case mo of Some m \<Rightarrow> if m \<noteq> [] \<and> m \<noteq> ''Todas'' then filtrar_eq df c m else Inr df
      | None \<Rightarrow> Inr df) =
     (if moneda_activa mo \<longrightarrow> c \<in> set (cols df)
      then Inr (df\<lparr>rws := filter (\<lambda>r. pasa_moneda mo (r c)) (rws df)\<rparr>)
      else Inl (KeyError c))"
  by (cases mo) (auto simp add: filtrar_eq_char)

lemma aplicar_filtros_try_char:
  "aplicar_filtros_try df productos clientes moneda =
     (if columnas_ok (cols df) productos clientes moneda
      then Inr (df\<lparr>rws := filter (pasa_filtros productos clientes moneda) (rws df)\<rparr>)
      else Inl (KeyError (if activo productos \<and> ''Producto'' \<notin> set (cols df) then ''Producto''
                          else if activo clientes \<and> ''Nombre_Cliente'' \<notin> set (cols df)
                               then ''Nombre_Cliente'' else ''Moneda'')))"
  unfolding aplicar_filtros_try_def etapa_lista etapa_moneda
  by (auto simp add: columnas_ok_def pasa_filtros_def [abs_def] conj_commute conj_left_commute)

lemma aplicar_filtros_char:
  "aplicar_filtros df productos clientes moneda =
     (if columnas_ok (cols df) productos clientes moneda
      then df\<lparr>rws := filter (pasa_filtros productos clientes moneda) (rws df)\<rparr>
      else df)"
  by (simp add: aplicar_filtros_def aplicar_filtros_try_char)

text \<open>
  Claim C5. Whenever the body of the \<^verbatim>\<open>try\<close> of \<open>aplicar_filtros\<close> raises, the call
  returns the table it was given, unchanged; and the body raises exactly when an active
  filter does not find its column. In the witness the product filter has already
  reduced the table to one row when the customer filter raises \<^verbatim>\<open>KeyError\<close> for the
  missing column; the call returns the two rows it was given.
\<close>

theorem aplicar_filtros_fail_open:
  "(\<forall>e. aplicar_filtros_try df productos clientes moneda = Inl e \<longrightarrow>
      aplicar_filtros df productos clientes moneda = df)
   \<and> ((\<exists>e. aplicar_filtros_try df productos clientes moneda = Inl e)
        \<longleftrightarrow> \<not> columnas_ok (cols df) productos clientes moneda)"
proof
  show "\<forall>e. aplicar_filtros_try df productos clientes moneda = Inl e \<longrightarrow>
      aplicar_filtros df productos clientes moneda = df"
    by (simp add: aplicar_filtros_def)
  show "(\<exists>e. aplicar_filtros_try df productos clientes moneda = Inl e)
        \<longleftrightarrow> \<not> columnas_ok (cols df) productos clientes moneda"
    by (simp add: aplicar_filtros_try_char)
qed

theorem aplicar_filtros_fail_open_witness:
  "filtrar_isin ventas_sin_cliente ''Producto'' [''Laptop'']
     = Inr (ventas_sin_cliente\<lparr>rws := [fila_filtro ''Laptop'' ''Acme'' ''COP'']\<rparr>)
   \<and> aplicar_filtros_try ventas_sin_cliente (Some [''Laptop'']) (Some [''Acme'']) None
     = Inl (KeyError ''Nombre_Cliente'')
   \<and> aplicar_filtros ventas_sin_cliente (Some [''Laptop'']) (Some [''Acme'']) None
     = ventas_sin_cliente"
proof -
  have a: "filtrar_isin ventas_sin_cliente ''Producto'' [''Laptop'']
     = Inr (ventas_sin_cliente\<lparr>rws := [fila_filtro ''Laptop'' ''Acme'' ''COP'']\<rparr>)"
    by (simp add: filtrar_isin_def getcol_def select_mask_def isin_def ventas_sin_cliente_def
        fila_filtro_def)
  have b: "aplicar_filtros_try ventas_sin_cliente (Some [''Laptop'']) (Some [''Acme'']) None
     = Inl (KeyError ''Nombre_Cliente'')"
    by (simp add: aplicar_filtros_try_def a) (simp add: filtrar_isin_def getcol_def ventas_sin_cliente_def)
  from a b aplicar_filtros_fail_open [of ventas_sin_cliente "Some [''Laptop'']" "Some [''Acme'']" None]
  show ?thesis by simp
qed

text \<open>
  Claim C7. With the product and the customer filter absent or empty and the currency
  filter absent or \<^verbatim>\<open>"Todas"\<close>, \<open>aplicar_filtros\<close> returns the table it was given.
\<close>

theorem aplicar_filtros_sin_filtros:
  assumes "productos = None \<or> productos = Some []"
    and "clientes = None \<or> clientes = Some []"
    and "moneda = None \<or> moneda = Some ''Todas''"
  shows "aplicar_filtros df productos clientes moneda = df"
  using assms
  by (auto simp add: aplicar_filtros_char columnas_ok_def pasa_filtros_def [abs_def])

theorem aplicar_filtros_sin_filtros_witness:
  "aplicar_filtros ventas_filtro None (Some []) (Some ''Todas'') = ventas_filtro
   \<and> length (rws (aplicar_filtros ventas_filtro None (Some []) (Some ''Todas''))) = 2"
proof -
  have "aplicar_filtros ventas_filtro None (Some []) (Some ''Todas'') = ventas_filtro"
    using aplicar_filtros_sin_filtros [of None "Some []" "Some ''Todas''" ventas_filtro] by simp
  then show ?thesis by (simp add: ventas_filtro_def)
qed

text \<open>
  Claim C8. Applying \<open>aplicar_filtros\<close> with the same filters to its own result changes
  nothing.
\<close>

theorem aplicar_filtros_idempotente:
  "aplicar_filtros (aplicar_filtros df productos clientes moneda) productos clientes moneda
     = aplicar_filtros df productos clientes moneda"
  by (simp add: aplicar_filtros_char)

section \<open>The date range of the dashboard\<close>

lemma filtrar_cmp_char:
  assumes "c \<in> set (cols df)" and "\<forall>r\<in>set (rws df). cmp (r c) = Inr (g (r c))"
  shows "filtrar_cmp df c cmp = Inr (df\<lparr>rws := filter (\<lambda>r. g (r c)) (rws df)\<rparr>)"
proof -
  have "mapE cmp (map (\<lambda>r. r c) (rws df)) = Inr (map g (map (\<lambda>r. r c) (rws df)))"
    using assms(2) by (intro mapE_total) simp
  then show ?thesis
    using assms(1) select_mask_map [of df "\<lambda>r. g (r c)"]
    by (simp add: filtrar_cmp_def getcol_def comp_def)
qed





lemma cols_aplicar_filtros [simp]: "cols (aplicar_filtros df p c m) = cols df"
  by (simp add: aplicar_filtros_char)


lemma fila_fecha_eq [simp]: "fila_fecha a ''Fecha_Doc'' = a"
  by (simp add: fila_fecha_def)




section \<open>Loading\<close>

lemma verificar_primer_faltante:
  "filter (\<lambda>a. \<not> existe a) (map snd ars) \<noteq> [] \<Longrightarrow>
   verificar_archivos existe ars = Inl (FileNotFoundError (hd (filter (\<lambda>a. \<not> existe a) (map snd ars))))"
  by (induction existe ars rule: verificar_archivos.induct) auto

lemma cargar_datos_try_faltante:
  assumes "archivos_faltantes existe \<noteq> []"
  shows "cargar_datos_try existe read_excel parse_num parse_date
     = Inl (FileNotFoundError (hd (archivos_faltantes existe)))"
  using verificar_primer_faltante [of existe archivos] assms
  by (simp add: cargar_datos_try_def archivos_faltantes_def)

text \<open>
  Claim C2, as the code has it. When a required file is absent, \<open>cargar_datos\<close> fails with
  \<^verbatim>\<open>FileNotFoundError\<close> naming the first absent file in the order ventas, pagos, stock;
  the error is never the generic load exception; and when exactly one file is absent the
  error names exactly that file. The witness has the sales and the payments file absent.
\<close>

theorem cargar_datos_primer_faltante:
  assumes "archivos_faltantes existe \<noteq> []"
  shows "cargar_datos existe read_excel parse_num parse_date
       = Inl (FileNotFoundError (hd (archivos_faltantes existe)))
     \<and> (\<forall>e. cargar_datos existe read_excel parse_num parse_date \<noteq> Inl (LoadException e))
     \<and> (\<forall>archivo. archivos_faltantes existe = [archivo] \<longrightarrow>
          (\<exists>err. cargar_datos existe read_excel parse_num parse_date = Inl err \<and>
             archivos_nombrados err = {archivo}))"
  by (simp add: cargar_datos_def cargar_datos_try_faltante [OF assms])

theorem cargar_datos_primer_faltante_witness:
  "archivos_faltantes solo_stock = [''F_ventas_sap.xlsx'', ''F_pagos_clientes.xlsx'']
   \<and> cargar_datos solo_stock leer_vacio sin_numero sin_fecha
       = Inl (FileNotFoundError ''F_ventas_sap.xlsx'')"
proof -
  have f: "archivos_faltantes solo_stock = [''F_ventas_sap.xlsx'', ''F_pagos_clientes.xlsx'']"
    by (simp add: archivos_faltantes_def archivos_def solo_stock_def)
  then have "archivos_faltantes solo_stock \<noteq> []" by simp
  from cargar_datos_primer_faltante [OF this, of leer_vacio sin_numero sin_fecha] f
  show ?thesis by simp
qed

text \<open>
  Claim C2 as the specification states it asks for the error to name every absent file. With
  the sales and the payments file both absent the error names the sales file only.
\<close>

theorem cargar_datos_nombra_uno_counterexample:
  "cargar_datos solo_stock leer_vacio sin_numero sin_fecha
       = Inl (FileNotFoundError ''F_ventas_sap.xlsx'')
   \<and> archivos_nombrados (FileNotFoundError ''F_ventas_sap.xlsx'')
       \<noteq> set (archivos_faltantes solo_stock)"
  by (simp add: cargar_datos_def cargar_datos_try_def archivos_def archivos_faltantes_def
      solo_stock_def)

section \<open>Cleaning\<close>

lemma es_numero_limpio [simp]: "es_numero (fillna0 (to_numeric_coerce parse_num c))"
  by (cases c) (auto split: option.splits)

lemma es_fecha_coerce [simp]: "es_fecha_o_nulo (to_datetime_coerce parse_date c)"
  by (cases c) (auto split: option.splits)

lemma zip_map_upd: "map (\<lambda>(r, v). r(c := v)) (zip rs (map g rs)) = map (\<lambda>r. r(c := g r)) rs"
  by (induction rs) simp_all

lemma dropna_char: "dropna df c = Inr df' \<Longrightarrow> c \<in> set (cols df) \<and> df' = con_clave df c"
  by (auto simp add: dropna_def con_clave_def split: if_splits)

lemma limpiar_numerica_char:
  "limpiar_numerica parse_num df c = Inr df' \<Longrightarrow>
     c \<in> set (cols df) \<and>
     df' = df\<lparr>rws := map (\<lambda>r. r(c := fillna0 (to_numeric_coerce parse_num (r c)))) (rws df)\<rparr>"
  using zip_map_upd [of c "rws df" "\<lambda>r. fillna0 (to_numeric_coerce parse_num (r c))"]
  by (auto simp add: limpiar_numerica_def getcol_def setcol_def comp_def split: if_splits)

lemma convertir_fecha_char:
  "convertir_fecha parse_date df c =
     Inr (if c \<in> set (cols df)
          then df\<lparr>rws := map (\<lambda>r. r(c := to_datetime_coerce parse_date (r c))) (rws df)\<rparr>
          else df)"
  using zip_map_upd [of c "rws df" "\<lambda>r. to_datetime_coerce parse_date (r c)"]
  by (auto simp add: convertir_fecha_def getcol_def setcol_def comp_def)

lemma bindE_eq_Inr: "bindE m f = Inr y \<longleftrightarrow> (\<exists>x. m = Inr x \<and> f x = Inr y)"
  by (cases m) simp_all


lemma limpiar_datos_pasos:
  assumes "limpiar_datos parse_num parse_date (v, p, s) = Inr (v', p', s')"
  obtains v1 v2 v3 p1 p2 where
    "dropna v ''Doc_Venta'' = Inr v1"
    "limpiar_numerica parse_num v1 ''Cantidad'' = Inr v2"
    "limpiar_numerica parse_num v2 ''Valor_Neto'' = Inr v3"
    "convertir_fecha parse_date v3 ''Fecha_Doc'' = Inr v'"
    "dropna p ''Referencia_Factura'' = Inr p1"
    "limpiar_numerica parse_num p1 ''Monto_Pago'' = Inr p2"
    "convertir_fecha parse_date p2 ''Fecha_Pago'' = Inr p'"
    "limpiar_numerica parse_num s ''Stock_Total'' = Inr s'"
  using assms unfolding limpiar_datos_def prod.case bindE_eq_Inr
  by (elim exE conjE) auto


lemma limpiar_datos_forma:
  assumes "limpiar_datos parse_num parse_date (v, p, s) = Inr (v', p', s')"
  shows "rws v' = map (\<lambda>r. (if ''Fecha_Doc'' \<in> set (cols v)
                   then (\<lambda>r. r(''Fecha_Doc'' := to_datetime_coerce parse_date (r ''Fecha_Doc'')))
                   else (\<lambda>r. r))
              (r(''Cantidad'' := fillna0 (to_numeric_coerce parse_num (r ''Cantidad'')),
                 ''Valor_Neto'' := fillna0 (to_numeric_coerce parse_num (r ''Valor_Neto'')))))
           (rws (con_clave v ''Doc_Venta''))"
    and "rws p' = map (\<lambda>r. (if ''Fecha_Pago'' \<in> set (cols p)
                   then (\<lambda>r. r(''Fecha_Pago'' := to_datetime_coerce parse_date (r ''Fecha_Pago'')))
                   else (\<lambda>r. r))
              (r(''Monto_Pago'' := fillna0 (to_numeric_coerce parse_num (r ''Monto_Pago'')))))
           (rws (con_clave p ''Referencia_Factura''))"
    and "rws s' = map (\<lambda>r. r(''Stock_Total'' := fillna0 (to_numeric_coerce parse_num (r ''Stock_Total''))))
           (rws s)"
proof -
  from assms obtain v1 v2 v3 p1 p2 where st:
    "dropna v ''Doc_Venta'' = Inr v1"
    "limpiar_numerica parse_num v1 ''Cantidad'' = Inr v2"
    "limpiar_numerica parse_num v2 ''Valor_Neto'' = Inr v3"
    "convertir_fecha parse_date v3 ''Fecha_Doc'' = Inr v'"
    "dropna p ''Referencia_Factura'' = Inr p1"
    "limpiar_numerica parse_num p1 ''Monto_Pago'' = Inr p2"
    "convertir_fecha parse_date p2 ''Fecha_Pago'' = Inr p'"
    "limpiar_numerica parse_num s ''Stock_Total'' = Inr s'"
    by (rule limpiar_datos_pasos)
  note v1 = dropna_char [OF st(1)]
  note v2 = limpiar_numerica_char [OF st(2)]
  note v3 = limpiar_numerica_char [OF st(3)]
  note p1 = dropna_char [OF st(5)]
  note p2 = limpiar_numerica_char [OF st(6)]
  note s1 = limpiar_numerica_char [OF st(8)]
  have cv3: "cols v3 = cols v"
    using v1 v2 v3 by (simp add: con_clave_def)
  have cp2: "cols p2 = cols p"
    using p1 p2 by (simp add: con_clave_def)
  show "rws v' = map (\<lambda>r. (if ''Fecha_Doc'' \<in> set (cols v)
                   then (\<lambda>r. r(''Fecha_Doc'' := to_datetime_coerce parse_date (r ''Fecha_Doc'')))
                   else (\<lambda>r. r))
              (r(''Cantidad'' := fillna0 (to_numeric_coerce parse_num (r ''Cantidad'')),
                 ''Valor_Neto'' := fillna0 (to_numeric_coerce parse_num (r ''Valor_Neto'')))))
           (rws (con_clave v ''Doc_Venta''))"
    using st(4) v1 v2 v3 cv3 by (auto simp add: convertir_fecha_char comp_def split: if_splits)
  show "rws p' = map (\<lambda>r. (if ''Fecha_Pago'' \<in> set (cols p)
                   then (\<lambda>r. r(''Fecha_Pago'' := to_datetime_coerce parse_date (r ''Fecha_Pago'')))
                   else (\<lambda>r. r))
              (r(''Monto_Pago'' := fillna0 (to_numeric_coerce parse_num (r ''Monto_Pago'')))))
           (rws (con_clave p ''Referencia_Factura''))"
    using st(7) p1 p2 cp2 by (auto simp add: convertir_fecha_char comp_def split: if_splits)
  show "rws s' = map (\<lambda>r. r(''Stock_Total'' := fillna0 (to_numeric_coerce parse_num (r ''Stock_Total''))))
           (rws s)"
    using s1 by simp
qed


lemmas limpiar_eval = limpiar_datos_def dropna_def limpiar_numerica_def convertir_fecha_def
  getcol_def setcol_def columna_def sin_numero_def sin_fecha_def

lemma valor_limpio_eq: "fillna0 (to_numeric_coerce parse_num c) = valor_limpio parse_num c"
  by (cases c) (auto split: option.splits)

lemma es_numero_valor_limpio [simp]: "es_numero (valor_limpio parse_num c)"
  by (cases c) (auto split: option.splits)

text \<open>
  Claim C3, as the code has it. After a cleaning that succeeds, no sales row has a missing
  document id and no payments row a missing invoice reference; the sales rows kept are
  exactly those with a document id, in order, and the payments rows kept exactly those with
  an invoice reference; in the four numeric columns every cell is a number, namely the
  number that was there, 0 for a missing value, and for any other value the number read from
  it or 0 when none is read; and the dates are the timestamps read from the raw cells, a
  cell that cannot be read becoming the missing date while its row stays. In the witness the
  sale with the date \<^verbatim>\<open>ayer\<close> and the quantity \<^verbatim>\<open>dos\<close> is kept with a missing date and the
  quantity 0, the net values 100 and 50 are unchanged, and the sale without document id is
  dropped.
\<close>

theorem limpiar_datos_invariantes:
  assumes "limpiar_datos parse_num parse_date (v, p, s) = Inr (v', p', s')"
  shows "list_all (\<lambda>c. c \<noteq> Null) (columna v' ''Doc_Venta'')
     \<and> list_all (\<lambda>c. c \<noteq> Null) (columna p' ''Referencia_Factura'')
     \<and> list_all es_numero (columna v' ''Cantidad'')
     \<and> list_all es_numero (columna v' ''Valor_Neto'')
     \<and> list_all es_numero (columna p' ''Monto_Pago'')
     \<and> list_all es_numero (columna s' ''Stock_Total'')
     \<and> columna v' ''Cantidad''
         = map (valor_limpio parse_num) (columna (con_clave v ''Doc_Venta'') ''Cantidad'')
     \<and> columna v' ''Valor_Neto''
         = map (valor_limpio parse_num) (columna (con_clave v ''Doc_Venta'') ''Valor_Neto'')
     \<and> columna p' ''Monto_Pago''
         = map (valor_limpio parse_num) (columna (con_clave p ''Referencia_Factura'') ''Monto_Pago'')
     \<and> columna s' ''Stock_Total'' = map (valor_limpio parse_num) (columna s ''Stock_Total'')
     \<and> columna v' ''Doc_Venta'' = columna (con_clave v ''Doc_Venta'') ''Doc_Venta''
     \<and> columna p' ''Referencia_Factura''
         = columna (con_clave p ''Referencia_Factura'') ''Referencia_Factura''
     \<and> (''Fecha_Doc'' \<in> set (cols v) \<longrightarrow>
          columna v' ''Fecha_Doc''
            = map (to_datetime_coerce parse_date) (columna (con_clave v ''Doc_Venta'') ''Fecha_Doc''))"
  unfolding columna_def limpiar_datos_forma [OF assms]
  by (simp add: list_all_iff comp_def con_clave_def valor_limpio_eq)

theorem limpiar_datos_invariantes_witness:
  "\<not> isl limpieza_ej
   \<and> columna (fst (projr limpieza_ej)) ''Doc_Venta'' = [Num (Fin 1), Num (Fin 3)]
   \<and> columna (fst (projr limpieza_ej)) ''Fecha_Doc'' = [Null, Date 7]
   \<and> columna (fst (projr limpieza_ej)) ''Cantidad'' = [Num (Fin 0), Num (Fin 0)]
   \<and> columna (fst (projr limpieza_ej)) ''Valor_Neto'' = [Num (Fin 100), Num (Fin 50)]
   \<and> columna (fst (snd (projr limpieza_ej))) ''Referencia_Factura'' = [Num (Fin 1)]
   \<and> columna (fst (snd (projr limpieza_ej))) ''Monto_Pago'' = [Num (Fin 0)]
   \<and> columna (snd (snd (projr limpieza_ej))) ''Stock_Total'' = [Num (Fin 0)]"
proof -
  have ok: "\<not> isl limpieza_ej"
    by (simp add: limpieza_ej_def limpiar_eval ventas_sucia_def pagos_sucia_def stock_sucia_def)
  then have "limpiar_datos sin_numero sin_fecha (ventas_sucia, pagos_sucia, stock_sucia)
     = Inr (fst (projr limpieza_ej), fst (snd (projr limpieza_ej)), snd (snd (projr limpieza_ej)))"
    by (cases limpieza_ej) (simp_all add: limpieza_ej_def)
  note t = limpiar_datos_invariantes [OF this]
  have c: "columna (con_clave ventas_sucia ''Doc_Venta'') ''Doc_Venta'' = [Num (Fin 1), Num (Fin 3)]"
    "columna (con_clave ventas_sucia ''Doc_Venta'') ''Fecha_Doc'' = [Str ''ayer'', Date 7]"
    "columna (con_clave ventas_sucia ''Doc_Venta'') ''Cantidad'' = [Str ''dos'', Null]"
    "columna (con_clave ventas_sucia ''Doc_Venta'') ''Valor_Neto'' = [Num (Fin 100), Num (Fin 50)]"
    "''Fecha_Doc'' \<in> set (cols ventas_sucia)"
    by (simp_all add: columna_def con_clave_def ventas_sucia_def fila_sucia_def)
  have d: "columna (con_clave pagos_sucia ''Referencia_Factura'') ''Referencia_Factura'' = [Num (Fin 1)]"
    "columna (con_clave pagos_sucia ''Referencia_Factura'') ''Monto_Pago'' = [Str ''x'']"
    "columna stock_sucia ''Stock_Total'' = [Null]"
    by (simp_all add: columna_def con_clave_def pagos_sucia_def stock_sucia_def fila_pago_def)
  from ok t c d show ?thesis by (simp add: sin_fecha_def sin_numero_def)
qed

text \<open>
  Claim C3 as the specification states it says the numeric columns hold finite numbers only.
  A quantity that is infinite before cleaning is a number to \<^verbatim>\<open>to_numeric\<close> and not a
  missing value to \<^verbatim>\<open>fillna\<close>: it is still infinite afterwards.
\<close>

theorem limpiar_datos_infinito_counterexample:
  "\<not> isl limpieza_inf
   \<and> columna (fst (projr limpieza_inf)) ''Cantidad'' = [Num PInf]
   \<and> \<not> list_all is_fin (columna (fst (projr limpieza_inf)) ''Cantidad'')"
  by (simp add: limpieza_inf_def limpiar_eval ventas_inf_def pagos_ej_def stock_vacio_def
      fila_venta_def)

section \<open>Report: the sheets of the workbook\<close>

lemma length_unique_values: "length (unique_values xs) = card (set xs)"
  by (simp add: unique_values_def length_remdups_card_conv)

lemma contar_unicos_char:
  assumes "c \<in> set (cols df)"
  shows "contar_unicos df c = Inr (distintos df c)"
proof (cases "rws df = []")
  case True
  then show ?thesis
    by (simp add: contar_unicos_def empty_df_def getcol_def columna_def distintos_def
        length_unique_values)
next
  case False
  with assms have "\<not> empty_df df" by (auto simp add: empty_df_def)
  with assms show ?thesis
    by (simp add: contar_unicos_def getcol_def columna_def distintos_def length_unique_values)
qed

lemma gt_zero_positivo: "is_num_or_null c \<Longrightarrow> gt_zero c = Inr (positivo c)"
  by (cases c rule: gt_zero.cases) simp_all

lemma en_stock_char:
  assumes "''Stock_Total'' \<in> set (cols s)"
    and "\<forall>r\<in>set (rws s). is_num_or_null (r ''Stock_Total'')"
  shows "(if \<not> empty_df s
          then bindE (filtrar_cmp s ''Stock_Total'' gt_zero) (\<lambda>en_stock.
                 Inr (num_of_nat (len_df en_stock)))
          else Inr (num_of_nat 0))
     = Inr (en_stock s)"
proof -
  have "filtrar_cmp s ''Stock_Total'' gt_zero
      = Inr (s\<lparr>rws := filter (\<lambda>r. positivo (r ''Stock_Total'')) (rws s)\<rparr>)"
    using assms by (intro filtrar_cmp_char) (simp_all add: gt_zero_positivo)
  then show ?thesis
    using assms(1) by (auto simp add: len_df_def empty_df_def en_stock_def)
qed

lemma stock_total_char:
  assumes "''Stock_Total'' \<in> set (cols s)"
    and "\<forall>r\<in>set (rws s). is_num_or_null (r ''Stock_Total'')"
  shows "(if \<not> empty_df s then bindE (getcol s ''Stock_Total'') (sum_series (sum_stock ar))
          else Inr (num_of_nat 0))
     = Inr (total_stock ar s)"
proof (cases "empty_df s")
  case True
  with assms(1) have "rws s = []" by (auto simp add: empty_df_def)
  with True show ?thesis by (simp add: total_stock_def columna_def num_of_nat_def)
next
  case False
  have "list_all is_num_or_null (map (\<lambda>r. r ''Stock_Total'') (rws s))"
    using assms(2) by (simp add: list_all_iff)
  with False assms(1) show ?thesis
    by (simp add: getcol_def sum_series_def total_stock_def columna_def)
qed

lemma crear_hoja_resumen_char:
  assumes "{''Producto'', ''Nombre_Cliente''} \<subseteq> set (cols v)"
    and "{''Stock_Total'', ''Centro''} \<subseteq> set (cols s)"
    and "\<forall>r\<in>set (rws s). is_num_or_null (r ''Stock_Total'')"
  shows "crear_hoja_resumen ar v p s = Inr (hoja_resumen ar v p s)"
proof -
  from assms have c: "''Producto'' \<in> set (cols v)" "''Nombre_Cliente'' \<in> set (cols v)"
    "''Stock_Total'' \<in> set (cols s)" "''Centro'' \<in> set (cols s)"
    by simp_all
  obtain tv tp pe where k: "calcular_kpis ar v p = (tv, tp, pe)"
    by (cases "calcular_kpis ar v p") auto
  show ?thesis
    unfolding crear_hoja_resumen_def k prod.case
      contar_unicos_char [OF c(1)] contar_unicos_char [OF c(2)] contar_unicos_char [OF c(4)]
      en_stock_char [OF c(3) assms(3)] stock_total_char [OF c(3) assms(3)]
    by (simp add: hoja_resumen_def metricas_def col_Metrica_def k len_df_def)
qed

lemma filas_hoja:
  "zip (columna (hoja_resumen ar v p s) (''M'' @ [CHR 0xC3, CHR 0xA9] @ ''trica''))
       (columna (hoja_resumen ar v p s) ''Valor'')
   = [(Str ''Total Ventas'', fst (calcular_kpis ar v p)),
      (Str ''Total Pagado'', fst (snd (calcular_kpis ar v p))),
      (Str ''Pendiente por Cobrar'', snd (snd (calcular_kpis ar v p))),
      (Str (''Productos '' @ [CHR 0xC3, CHR 0x9A] @ ''nicos''), distintos v ''Producto''),
      (Str (''Clientes '' @ [CHR 0xC3, CHR 0x9A] @ ''nicos''), distintos v ''Nombre_Cliente''),
      (Str ''Transacciones de Venta'', num_of_nat (length (rws v))),
      (Str ''Transacciones de Pago'', num_of_nat (length (rws p))),
      (Str ''Materiales en Stock'', en_stock s),
      (Str (''Centros de Distribuci'' @ [CHR 0xC3, CHR 0xB3] @ ''n''), distintos s ''Centro''),
      (Str ''Stock Total (Unidades)'', total_stock ar s)]"
  by (simp add: columna_def hoja_resumen_def fila_resumen_def col_Metrica_def)

lemma kpis_rep:
  "calcular_kpis aritmetica_int64 ventas_rep pagos_ej = (Num (Fin 500), Num (Fin 150), Num (Fin 350))"
  by (simp add: calcular_kpis_def calcular_kpis_try_def getcol_def ventas_rep_def pagos_ej_def
      fila_rep_def fila_pago_def mul_series_def sum_series_def csub_def select_mask_def isin_def
      unique_values_def int64_eval)

lemma conteos_rep:
  "distintos ventas_rep ''Producto'' = Num (Fin 2)"
  "distintos ventas_rep ''Nombre_Cliente'' = Num (Fin 1)"
  "num_of_nat (length (rws ventas_rep)) = Num (Fin 2)"
  "num_of_nat (length (rws pagos_ej)) = Num (Fin 2)"
  "en_stock stock_rep = Num (Fin 2)"
  "distintos stock_rep ''Centro'' = Num (Fin 2)"
  "total_stock aritmetica_int64 stock_rep = Num (Fin 15)"
  by (simp_all add: distintos_def en_stock_def total_stock_def columna_def ventas_rep_def
      stock_rep_def pagos_ej_def fila_rep_def fila_stock_def num_of_nat_def int64_eval)

text \<open>
  Claim C4. For a sales table with the product and customer columns and a stock table with
  the centre column and quantities that are numbers or missing, \<^verbatim>\<open>generar_reporte_excel\<close>
  returns the sheets \<^verbatim>\<open>Ventas\<close>, \<^verbatim>\<open>Pagos\<close>, \<^verbatim>\<open>Stock\<close> holding the three tables given, in this
  order, followed by the sheet \<^verbatim>\<open>Resumen\<close> exactly when \<^verbatim>\<open>incluir_resumen\<close> is true. That sheet
  has the columns \<^verbatim>\<open>M\<close>\<open>\<dots>\<close>\<^verbatim>\<open>trica\<close> and \<^verbatim>\<open>Valor\<close> and ten rows, in this order: \<^verbatim>\<open>Total Ventas\<close>,
  \<^verbatim>\<open>Total Pagado\<close> and \<^verbatim>\<open>Pendiente por Cobrar\<close> with the three KPIs of the sales and payments
  tables of the call; the labels of the distinct products and the distinct customers with
  the numbers of different values of these two sales columns; \<^verbatim>\<open>Transacciones de Venta\<close> and
  \<^verbatim>\<open>Transacciones de Pago\<close> with the numbers of sales rows and payment rows;
  \<^verbatim>\<open>Materiales en Stock\<close> with the number of stock rows whose quantity is positive; the label
  of the distribution centres with the number of different centres; and
  \<^verbatim>\<open>Stock Total (Unidades)\<close> with the sum of the stock quantities as the arithmetic of that
  column computes it, 0 when no quantity is present. The witness builds both workbooks for a
  small example and reads the ten labels and values.
\<close>

theorem generar_reporte_excel_hojas:
  assumes "{''Producto'', ''Nombre_Cliente''} \<subseteq> set (cols ventas_df)"
    and "{''Stock_Total'', ''Centro''} \<subseteq> set (cols stock_df)"
    and "\<forall>r\<in>set (rws stock_df). is_num_or_null (r ''Stock_Total'')"
  shows "generar_reporte_excel ar ventas_df pagos_df stock_df incluir_resumen
       = Inr ([(''Ventas'', ventas_df), (''Pagos'', pagos_df), (''Stock'', stock_df)]
              @ (if incluir_resumen
                 then [(''Resumen'', hoja_resumen ar ventas_df pagos_df stock_df)]
                 else []))
     \<and> cols (hoja_resumen ar ventas_df pagos_df stock_df)
       = [''M'' @ [CHR 0xC3, CHR 0xA9] @ ''trica'', ''Valor'']
     \<and> length (rws (hoja_resumen ar ventas_df pagos_df stock_df)) = 10
     \<and> zip (columna (hoja_resumen ar ventas_df pagos_df stock_df)
              (''M'' @ [CHR 0xC3, CHR 0xA9] @ ''trica''))
           (columna (hoja_resumen ar ventas_df pagos_df stock_df) ''Valor'')
       = [(Str ''Total Ventas'', fst (calcular_kpis ar ventas_df pagos_df)),
          (Str ''Total Pagado'', fst (snd (calcular_kpis ar ventas_df pagos_df))),
          (Str ''Pendiente por Cobrar'', snd (snd (calcular_kpis ar ventas_df pagos_df))),
          (Str (''Productos '' @ [CHR 0xC3, CHR 0x9A] @ ''nicos''),
           num_of_nat (card (set (columna ventas_df ''Producto'')))),
          (Str (''Clientes '' @ [CHR 0xC3, CHR 0x9A] @ ''nicos''),
           num_of_nat (card (set (columna ventas_df ''Nombre_Cliente'')))),
          (Str ''Transacciones de Venta'', num_of_nat (length (rws ventas_df))),
          (Str ''Transacciones de Pago'', num_of_nat (length (rws pagos_df))),
          (Str ''Materiales en Stock'',
           num_of_nat (length (filter (\<lambda>r. positivo (r ''Stock_Total'')) (rws stock_df)))),
          (Str (''Centros de Distribuci'' @ [CHR 0xC3, CHR 0xB3] @ ''n''),
           num_of_nat (card (set (columna stock_df ''Centro'')))),
          (Str ''Stock Total (Unidades)'', total_stock ar stock_df)]"
proof -
  have "generar_reporte_excel ar ventas_df pagos_df stock_df incluir_resumen
       = Inr ([(''Ventas'', ventas_df), (''Pagos'', pagos_df), (''Stock'', stock_df)]
              @ (if incluir_resumen
                 then [(''Resumen'', hoja_resumen ar ventas_df pagos_df stock_df)]
                 else []))"
    by (simp add: generar_reporte_excel_def generar_reporte_excel_try_def
        crear_hoja_resumen_char [OF assms])
  moreover have "cols (hoja_resumen ar ventas_df pagos_df stock_df)
       = [''M'' @ [CHR 0xC3, CHR 0xA9] @ ''trica'', ''Valor'']"
    by (simp add: hoja_resumen_def)
  moreover have "length (rws (hoja_resumen ar ventas_df pagos_df stock_df)) = 10"
    by (simp add: hoja_resumen_def)
  ultimately show ?thesis
    unfolding filas_hoja by (simp add: distintos_def en_stock_def)
qed

theorem generar_reporte_excel_hojas_witness:
  "generar_reporte_excel aritmetica_int64 ventas_rep pagos_ej stock_rep False
     = Inr [(''Ventas'', ventas_rep), (''Pagos'', pagos_ej), (''Stock'', stock_rep)]
   \<and> map fst (projr (generar_reporte_excel aritmetica_int64 ventas_rep pagos_ej stock_rep True))
     = [''Ventas'', ''Pagos'', ''Stock'', ''Resumen'']
   \<and> zip (columna (snd (last (projr
             (generar_reporte_excel aritmetica_int64 ventas_rep pagos_ej stock_rep True))))
           (''M'' @ [CHR 0xC3, CHR 0xA9] @ ''trica''))
         (columna (snd (last (projr
             (generar_reporte_excel aritmetica_int64 ventas_rep pagos_ej stock_rep True))))
           ''Valor'')
     = [(Str ''Total Ventas'', Num (Fin 500)),
        (Str ''Total Pagado'', Num (Fin 150)),
        (Str ''Pendiente por Cobrar'', Num (Fin 350)),
        (Str (''Productos '' @ [CHR 0xC3, CHR 0x9A] @ ''nicos''), Num (Fin 2)),
        (Str (''Clientes '' @ [CHR 0xC3, CHR 0x9A] @ ''nicos''), Num (Fin 1)),
        (Str ''Transacciones de Venta'', Num (Fin 2)),
        (Str ''Transacciones de Pago'', Num (Fin 2)),
        (Str ''Materiales en Stock'', Num (Fin 2)),
        (Str (''Centros de Distribuci'' @ [CHR 0xC3, CHR 0xB3] @ ''n''), Num (Fin 2)),
        (Str ''Stock Total (Unidades)'', Num (Fin 15))]"
proof -
  have a: "{''Producto'', ''Nombre_Cliente''} \<subseteq> set (cols ventas_rep)"
    by (simp add: ventas_rep_def)
  have b: "{''Stock_Total'', ''Centro''} \<subseteq> set (cols stock_rep)"
    by (simp add: stock_rep_def)
  have c: "\<forall>r\<in>set (rws stock_rep). is_num_or_null (r ''Stock_Total'')"
    by (simp add: stock_rep_def fila_stock_def)
  have d: "num_of_nat (card (set (columna ventas_rep ''Producto''))) = Num (Fin 2)"
    "num_of_nat (card (set (columna ventas_rep ''Nombre_Cliente''))) = Num (Fin 1)"
    "num_of_nat (length (filter (\<lambda>r. positivo (r ''Stock_Total'')) (rws stock_rep))) = Num (Fin 2)"
    "num_of_nat (card (set (columna stock_rep ''Centro''))) = Num (Fin 2)"
    using conteos_rep by (simp_all add: distintos_def en_stock_def)
  show ?thesis
    using generar_reporte_excel_hojas [OF a b c, of aritmetica_int64 pagos_ej False]
      generar_reporte_excel_hojas [OF a b c, of aritmetica_int64 pagos_ej True]
    by (simp add: kpis_rep conteos_rep d)
qed

end
